theory Spec2Isabelle
  imports Main
begin

section \<open>Exceptions and results\<close>

text \<open>
  The argument of \<^verbatim>\<open>sys.exit\<close> and the \<^verbatim>\<open>code\<close> attribute of a
  \<^verbatim>\<open>SystemExit\<close>: \<^verbatim>\<open>None\<close>, an integer, or any other object (given by its
  printed form).
\<close>

datatype exit_arg = ExitNone | ExitInt int | ExitObj string

text \<open>
  The exception classes that \<^verbatim>\<open>dx_environment.py\<close> names or can meet. Every class
  but \<^verbatim>\<open>SystemExit\<close> and \<^verbatim>\<open>KeyboardInterrupt\<close> carries the text that
  \<^verbatim>\<open>str(err)\<close> yields. \<open>OtherException\<close> stands for any class the file never names.
  The vendor classes \<^verbatim>\<open>RequestError\<close>, \<^verbatim>\<open>HttpError\<close> and \<^verbatim>\<open>JobError\<close> are
  taken as unrelated by inheritance: the handlers of the source list them side by side.
\<close>

datatype exn =
    DlpxException string
  | DlpxObjectNotFound string
  | RequestError string
  | HttpError string
  | JobError string
  | AttributeError string
  | KeyError string
  | TypeError string
  | IndexError string
  | SystemExit exit_arg
  | KeyboardInterrupt
  | OtherException string

datatype 'a result = Return 'a | Raise exn

text \<open>
  \<^verbatim>\<open>except dlpx_exceptions.DlpxException\<close> matches by \<^verbatim>\<open>isinstance\<close>. Whether
  \<^verbatim>\<open>DlpxObjectNotFound\<close> is declared as a subclass of \<^verbatim>\<open>DlpxException\<close> is
  decided in \<^verbatim>\<open>lib/dlpx_exceptions.py\<close>; the answer is the parameter \<open>sub\<close>.
\<close>

fun isinstance_DlpxException :: "bool \<Rightarrow> exn \<Rightarrow> bool" where
  "isinstance_DlpxException sub (DlpxException m) = True"
| "isinstance_DlpxException sub (DlpxObjectNotFound m) = sub"
| "isinstance_DlpxException sub e = False"

fun isinstance_RequestError :: "exn \<Rightarrow> bool" where
  "isinstance_RequestError (RequestError m) = True"
| "isinstance_RequestError e = False"

fun isinstance_HttpError :: "exn \<Rightarrow> bool" where
  "isinstance_HttpError (HttpError m) = True"
| "isinstance_HttpError e = False"

fun isinstance_JobError :: "exn \<Rightarrow> bool" where
  "isinstance_JobError (JobError m) = True"
| "isinstance_JobError e = False"

fun isinstance_AttributeError :: "exn \<Rightarrow> bool" where
  "isinstance_AttributeError (AttributeError m) = True"
| "isinstance_AttributeError e = False"

fun isinstance_KeyError :: "exn \<Rightarrow> bool" where
  "isinstance_KeyError (KeyError m) = True"
| "isinstance_KeyError e = False"

text \<open>Decimal printing of a natural number, for the text of an integer exit code.\<close>

fun digits10 :: "nat \<Rightarrow> string" where
  "digits10 n =
     (if n < 10 then [char_of (48 + n)]
      else digits10 (n div 10) @ [char_of (48 + n mod 10)])"

declare digits10.simps [simp del]

text \<open>\<^verbatim>\<open>{err}\<close> inside an f-string: the text of the exception.\<close>

fun str_exn :: "exn \<Rightarrow> string" where
  "str_exn (DlpxException m) = m"
| "str_exn (DlpxObjectNotFound m) = m"
| "str_exn (RequestError m) = m"
| "str_exn (HttpError m) = m"
| "str_exn (JobError m) = m"
| "str_exn (AttributeError m) = m"
| "str_exn (KeyError m) = m"
| "str_exn (TypeError m) = m"
| "str_exn (IndexError m) = m"
| "str_exn (OtherException m) = m"
| "str_exn (SystemExit ExitNone) = []"
| "str_exn (SystemExit (ExitInt n)) = (if n < 0 then ''-'' else []) @ digits10 (nat \<bar>n\<bar>)"
| "str_exn (SystemExit (ExitObj t)) = t"
| "str_exn KeyboardInterrupt = []"

text \<open>Reading attribute \<open>a\<close> of \<^verbatim>\<open>None\<close>.\<close>

definition NoneType_has_no_attribute :: "string \<Rightarrow> exn" where
  "NoneType_has_no_attribute a =
     AttributeError ([CHR 0x27] @ ''NoneType'' @ [CHR 0x27] @ '' object has no attribute ''
                     @ [CHR 0x27] @ a @ [CHR 0x27])"

section \<open>Objects of the engine and request objects\<close>

text \<open>
  An environment and a host as the engine returns them. \<open>e_host = None\<close> is an
  environment without a \<^verbatim>\<open>host\<close> attribute (a cluster): reading it raises
  \<^verbatim>\<open>AttributeError\<close>, which \<^verbatim>\<open>list_env\<close> expects.
  \<open>e_ase_host_environment_parameters\<close> is \<open>Some t\<close> when the attribute is an
  \<^verbatim>\<open>ASEHostEnvironmentParameters\<close> with printed form \<open>t\<close>.
\<close>

record Environment =
  e_reference :: string
  e_name :: string
  e_type :: string
  e_enabled :: bool
  e_primary_user :: string
  e_host :: "string option"
  e_ase_host_environment_parameters :: "string option"

record Host =
  ho_reference :: string
  ho_type :: string

text \<open>
  The request objects of \<^verbatim>\<open>delphixpy.v1_10_2.web.vo\<close> are modelled as plain
  attribute holders: a class tag and the attributes this file assigns, \<open>None\<close>
  until assigned.
\<close>

datatype host_class = UnixHost | WindowsHost

record vo_Host =
  h_class :: host_class
  h_address :: "string option"
  h_name :: "string option"
  h_toolkit_path :: "string option"
  h_connector_port :: "int option"

definition new_Host :: "host_class \<Rightarrow> vo_Host" where
  "new_Host c = \<lparr>h_class = c, h_address = None, h_name = None, h_toolkit_path = None,
                 h_connector_port = None\<rparr>"

datatype credential_class = SystemKeyCredential | PasswordCredential

record vo_Credential =
  c_class :: credential_class
  c_password :: "string option"

definition new_Credential :: "credential_class \<Rightarrow> vo_Credential" where
  "new_Credential c = \<lparr>c_class = c, c_password = None\<rparr>"

record EnvironmentUser =
  u_name :: "string option"
  u_credential :: "vo_Credential option"

record ASEHostEnvironmentParameters =
  db_user :: "string option"
  credentials :: "(string \<times> string option) list option"

datatype host_environment_class =
  UnixHostCreateParameters | UnixHostEnvironment | WindowsHostEnvironment

record vo_HostEnvironment =
  he_class :: host_environment_class
  he_name :: "string option"
  he_host :: "vo_Host option"
  he_ase_host_environment_parameters :: "ASEHostEnvironmentParameters option"
  he_proxy :: "string option"

definition new_HostEnvironment :: "host_environment_class \<Rightarrow> vo_HostEnvironment" where
  "new_HostEnvironment c = \<lparr>he_class = c, he_name = None, he_host = None,
     he_ase_host_environment_parameters = None, he_proxy = None\<rparr>"

record WindowsHostCreateParameters =
  hp_host :: "vo_Host option"
  hp_name :: "string option"

text \<open>
  \<^verbatim>\<open>host_parameters\<close> is a plain dictionary of dictionaries in
  \<^verbatim>\<open>create_linux_env\<close> and a \<^verbatim>\<open>WindowsHostCreateParameters\<close> object in
  \<^verbatim>\<open>create_windows_env\<close>.
\<close>

datatype host_parameters_value =
    Dict "(string \<times> (string \<times> string option) list) list"
  | Obj WindowsHostCreateParameters

record HostEnvironmentCreateParameters =
  host_environment :: "vo_HostEnvironment option"
  primary_user :: "EnvironmentUser option"
  host_parameters :: "host_parameters_value option"

section \<open>The session and the collaborators\<close>

text \<open>The calls this file issues against the engine through the vendor library.\<close>

datatype vendor_call =
    environment_enable string
  | environment_disable string
  | host_update string vo_Host
  | environment_get_all
  | environment_delete string
  | environment_refresh string
  | environment_create HostEnvironmentCreateParameters

text \<open>
  The session object \<^verbatim>\<open>dlpx_obj\<close>. Its class is declared in
  \<^verbatim>\<open>lib/get_session.py\<close>, so the outcome of
  \<^verbatim>\<open>dlpx_obj.dlpx_engines.keys()[0]\<close> is the field \<open>dlpx_engines_keys_0\<close>:
  an engine name, or the exception the subscript raises. \<open>jobs\<close> is the mapping from
  engine name to job reference, \<open>last_job\<close> is \<^verbatim>\<open>server_session.last_job\<close>.
  \<open>issued\<close> records the vendor calls made so far, \<open>logged\<close> the messages handed to
  \<^verbatim>\<open>dx_logging.print_exception\<close>, \<open>printed\<close> the lines written by
  \<^verbatim>\<open>print\<close>.
\<close>

record session =
  dlpx_engines_keys_0 :: "string result"
  jobs :: "string \<rightharpoonup> string option"
  last_job :: "string option"
  issued :: "vendor_call list"
  logged :: "string list"
  printed :: "string list"

text \<open>
  The collaborators: the lookups of \<^verbatim>\<open>lib/get_references.py\<close> and the engine
  behind the vendor calls. A lookup returns an object, \<^verbatim>\<open>None\<close>, or raises.
  \<open>engine w h c\<close> is the engine's answer to the call \<open>c\<close> after the calls \<open>h\<close>:
  it raises, or the call succeeds and \<^verbatim>\<open>server_session.last_job\<close> becomes the
  returned value.
\<close>

record world =
  notfound_is_dlpx :: bool
  find_obj_by_name_environment :: "string \<Rightarrow> Environment option result"
  find_obj_by_name_host :: "string \<Rightarrow> Host option result"
  find_all_objects_environment :: "Environment list result"
  find_obj_name_user :: "string \<Rightarrow> string result"
  find_obj_name_host :: "string \<Rightarrow> string result"
  get_all_answer :: "vendor_call list \<Rightarrow> Environment list result"
  engine :: "vendor_call list \<Rightarrow> vendor_call \<Rightarrow> string option result"

definition invoke :: "world \<Rightarrow> vendor_call \<Rightarrow> session \<Rightarrow> unit result \<times> session" where
  "invoke w c s =
     (case engine w (issued s) c of
        Raise err \<Rightarrow> (Raise err, s\<lparr>issued := issued s @ [c]\<rparr>)
      | Return j \<Rightarrow> (Return (), s\<lparr>issued := issued s @ [c], last_job := j\<rparr>))"

text \<open>The tuple of exception classes of the handlers in the action functions.\<close>

definition dlpx_or_request :: "world \<Rightarrow> exn \<Rightarrow> bool" where
  "dlpx_or_request w err =
     (isinstance_DlpxException (notfound_is_dlpx w) err \<or> isinstance_RequestError err)"

definition dlpx_or_request_or_http :: "world \<Rightarrow> exn \<Rightarrow> bool" where
  "dlpx_or_request_or_http w err =
     (isinstance_DlpxException (notfound_is_dlpx w) err \<or> isinstance_RequestError err
      \<or> isinstance_HttpError err)"

section \<open>The action functions\<close>

text \<open>An interpolated value that may be \<^verbatim>\<open>None\<close>, and a Boolean.\<close>

definition str_opt :: "string option \<Rightarrow> string" where
  "str_opt v = (case v of None \<Rightarrow> ''None'' | Some t \<Rightarrow> t)"

definition str_bool :: "bool \<Rightarrow> string" where
  "str_bool b = (if b then ''True'' else ''False'')"

definition enable_environment :: "world \<Rightarrow> session \<Rightarrow> string \<Rightarrow> unit result \<times> session" where
  "enable_environment w s env_name =
     (case find_obj_by_name_environment w env_name of
        Raise err \<Rightarrow> (Raise err, s)
      | Return None \<Rightarrow> (Raise (NoneType_has_no_attribute ''reference''), s)
      | Return (Some env_obj) \<Rightarrow>
          (case invoke w (environment_enable (e_reference env_obj)) s of
             (Return u, s') \<Rightarrow> (Return (), s')
           | (Raise err, s') \<Rightarrow>
               if dlpx_or_request w err
               then (Return (),
                     s'\<lparr>logged := logged s' @
                        [''ERROR: Enabling the host '' @ env_name @ '' encountered an error:''
                         @ [CHR 0x0A] @ str_exn err]\<rparr>)
               else (Raise err, s')))"

definition disable_environment :: "world \<Rightarrow> session \<Rightarrow> string \<Rightarrow> unit result \<times> session" where
  "disable_environment w s env_name =
     (case find_obj_by_name_environment w env_name of
        Raise err \<Rightarrow> (Raise err, s)
      | Return None \<Rightarrow> (Raise (NoneType_has_no_attribute ''reference''), s)
      | Return (Some env_obj) \<Rightarrow>
          (case invoke w (environment_disable (e_reference env_obj)) s of
             (Return u, s') \<Rightarrow> (Return (), s')
           | (Raise err, s') \<Rightarrow>
               if dlpx_or_request w err
               then (Return (),
                     s'\<lparr>logged := logged s' @
                        [''ERROR: Disabling the host '' @ env_name @ '' encountered an error:''
                         @ [CHR 0x0A] @ str_exn err]\<rparr>)
               else (Raise err, s')))"

definition update_host_address ::
  "world \<Rightarrow> session \<Rightarrow> string \<Rightarrow> string \<Rightarrow> unit result \<times> session" where
  "update_host_address w s old_host_address new_host_address =
     (case find_obj_by_name_host w old_host_address of
        Raise err \<Rightarrow> (Raise err, s)
      | Return None \<Rightarrow> (Raise (NoneType_has_no_attribute ''type''), s)
      | Return (Some old_host_obj) \<Rightarrow>
          (let host_obj = (if ho_type old_host_obj = ''WindowsHost''
                           then new_Host WindowsHost else new_Host UnixHost);
               host_obj = host_obj\<lparr>h_address := Some new_host_address\<rparr>
           in case invoke w (host_update (ho_reference old_host_obj) host_obj) s of
                (Return u, s') \<Rightarrow> (Return (), s')
              | (Raise err, s') \<Rightarrow>
                  if dlpx_or_request w err
                  then (Return (),
                        s'\<lparr>logged := logged s' @
                           [''ERROR: Updating the host '' @ str_opt (h_name host_obj)
                            @ '' encountered an error:'' @ [CHR 0x0A] @ str_exn err]\<rparr>)
                  else (Raise err, s')))"

text \<open>
  \<^verbatim>\<open>list_env\<close>: the host name of an environment. When the environment has no
  \<^verbatim>\<open>host\<close> attribute, or the lookup raises \<^verbatim>\<open>AttributeError\<close>, the handler
  passes and \<^verbatim>\<open>env_host\<close> keeps the value of the previous round.
\<close>

definition list_env_host :: "world \<Rightarrow> Environment \<Rightarrow> string \<Rightarrow> string result" where
  "list_env_host w env env_host =
     (case e_host env of
        None \<Rightarrow> Return env_host
      | Some h \<Rightarrow>
          (case find_obj_name_host w h of
             Return n \<Rightarrow> Return n
           | Raise err \<Rightarrow> if isinstance_AttributeError err then Return env_host else Raise err))"

definition list_env_line :: "Environment \<Rightarrow> string \<Rightarrow> string \<Rightarrow> string" where
  "list_env_line env env_user env_host =
     (if e_type env = ''WindowsHostEnvironment''
      then ''Environment Name: '' @ e_name env @ '', Username: '' @ env_user
           @ '', Host: '' @ env_host @ '',Enabled: '' @ str_bool (e_enabled env)
      else if e_type env = ''WindowsCluster'' \<or> e_type env = ''OracleCluster''
      then ''Environment Name: '' @ e_name env @ '', Username: '' @ env_user
           @ ''Enabled: '' @ str_bool (e_enabled env) @ '', ''
      else ''Environment Name: '' @ e_name env @ '', Username: '' @ env_user
           @ '', Host: '' @ env_host @ '', Enabled: '' @ str_bool (e_enabled env)
           @ '', ASE Environment Params: ''
           @ (case e_ase_host_environment_parameters env of
                Some t \<Rightarrow> t | None \<Rightarrow> ''Undefined''))"

fun list_env_loop ::
  "world \<Rightarrow> Environment list \<Rightarrow> string \<Rightarrow> session \<Rightarrow> unit result \<times> session" where
  "list_env_loop w [] env_host s = (Return (), s)"
| "list_env_loop w (env # all_envs) env_host s =
     (case find_obj_name_user w (e_primary_user env) of
        Raise err \<Rightarrow> (Raise err, s)
      | Return env_user \<Rightarrow>
          (case list_env_host w env env_host of
             Raise err \<Rightarrow> (Raise err, s)
           | Return env_host' \<Rightarrow>
               list_env_loop w all_envs env_host'
                 (s\<lparr>printed := printed s @ [list_env_line env env_user env_host']\<rparr>)))"

definition list_env :: "world \<Rightarrow> session \<Rightarrow> unit result \<times> session" where
  "list_env w s =
     (let s' = s\<lparr>issued := issued s @ [environment_get_all]\<rparr>
      in case get_all_answer w (issued s) of
           Raise err \<Rightarrow> (Raise err, s')
         | Return all_envs \<Rightarrow> list_env_loop w all_envs [] s')"

text \<open>
  \<^verbatim>\<open>delete_env\<close>: in the \<^verbatim>\<open>elif env_obj is None\<close> branch the source builds a
  \<^verbatim>\<open>DlpxObjectNotFound\<close> object and drops it (there is no \<^verbatim>\<open>raise\<close>), so the
  function returns.
\<close>

definition delete_env :: "world \<Rightarrow> session \<Rightarrow> string \<Rightarrow> unit result \<times> session" where
  "delete_env w s env_name =
     (case dlpx_engines_keys_0 s of
        Raise err \<Rightarrow> (Raise err, s)
      | Return engine_name \<Rightarrow>
          (case find_obj_by_name_environment w env_name of
             Raise err \<Rightarrow> (Raise err, s)
           | Return None \<Rightarrow> (Return (), s)
           | Return (Some env_obj) \<Rightarrow>
               (case invoke w (environment_delete (e_reference env_obj)) s of
                  (Raise err, s') \<Rightarrow> (Raise err, s')
                | (Return u, s') \<Rightarrow>
                    (Return (), s'\<lparr>jobs := (jobs s')(engine_name \<mapsto> last_job s')\<rparr>))))"

text \<open>
  \<^verbatim>\<open>refresh_env\<close> with the name \<^verbatim>\<open>"all"\<close>: the loop over the environments.
  The handler builds a \<^verbatim>\<open>DlpxException\<close> object and drops it (there is no
  \<^verbatim>\<open>raise\<close>), so the loop goes on; an exception of another class leaves the loop.
\<close>

fun refresh_all ::
  "world \<Rightarrow> string \<Rightarrow> Environment list \<Rightarrow> session \<Rightarrow> unit result \<times> session" where
  "refresh_all w engine_name [] s = (Return (), s)"
| "refresh_all w engine_name (env_obj # env_list) s =
     (case invoke w (environment_refresh (e_reference env_obj)) s of
        (Return u, s') \<Rightarrow>
          refresh_all w engine_name env_list
            (s'\<lparr>jobs := (jobs s')(engine_name \<mapsto> last_job s')\<rparr>)
      | (Raise err, s') \<Rightarrow>
          if dlpx_or_request w err then refresh_all w engine_name env_list s'
          else (Raise err, s'))"

text \<open>The guarded block of the \<^verbatim>\<open>else\<close> branch of \<^verbatim>\<open>refresh_env\<close>.\<close>

definition refresh_named ::
  "world \<Rightarrow> string \<Rightarrow> string \<Rightarrow> session \<Rightarrow> unit result \<times> session" where
  "refresh_named w engine_name env_name s =
     (case find_obj_by_name_environment w env_name of
        Raise err \<Rightarrow> (Raise err, s)
      | Return None \<Rightarrow> (Raise (NoneType_has_no_attribute ''reference''), s)
      | Return (Some env_obj) \<Rightarrow>
          (case invoke w (environment_refresh (e_reference env_obj)) s of
             (Raise err, s') \<Rightarrow> (Raise err, s')
           | (Return u, s') \<Rightarrow>
               (Return (), s'\<lparr>jobs := (jobs s')(engine_name \<mapsto> last_job s')\<rparr>)))"

definition refresh_env :: "world \<Rightarrow> session \<Rightarrow> string \<Rightarrow> unit result \<times> session" where
  "refresh_env w s env_name =
     (case dlpx_engines_keys_0 s of
        Raise err \<Rightarrow> (Raise err, s)
      | Return engine_name \<Rightarrow>
          if env_name = ''all''
          then (case find_all_objects_environment w of
                  Raise err \<Rightarrow> (Raise err, s)
                | Return env_list \<Rightarrow> refresh_all w engine_name env_list s)
          else (case refresh_named w engine_name env_name s of
                  (Return u, s') \<Rightarrow> (Return (), s')
                | (Raise err, s') \<Rightarrow>
                    if dlpx_or_request w err
                    then (Raise (DlpxException
                            (''Refreshing '' @ env_name @ '' encountered an error:''
                             @ [CHR 0x0A] @ str_exn err)), s')
                    else (Raise err, s')))"

section \<open>Building the create requests\<close>

text \<open>
  Assignment to an attribute of a nested object, as in
  \<^verbatim>\<open>env_params_obj.host_environment.host.address = ip_addr\<close>: the update reaches
  the nested object through the attribute that holds it. Every path of the source
  assigns the holder before it assigns through it.
\<close>

definition on_host_environment ::
  "(vo_HostEnvironment \<Rightarrow> vo_HostEnvironment) \<Rightarrow>
   HostEnvironmentCreateParameters \<Rightarrow> HostEnvironmentCreateParameters" where
  "on_host_environment f p = p\<lparr>host_environment := map_option f (host_environment p)\<rparr>"

definition on_he_host :: "(vo_Host \<Rightarrow> vo_Host) \<Rightarrow> vo_HostEnvironment \<Rightarrow> vo_HostEnvironment" where
  "on_he_host f he = he\<lparr>he_host := map_option f (he_host he)\<rparr>"

definition on_primary_user ::
  "(EnvironmentUser \<Rightarrow> EnvironmentUser) \<Rightarrow>
   HostEnvironmentCreateParameters \<Rightarrow> HostEnvironmentCreateParameters" where
  "on_primary_user f p = p\<lparr>primary_user := map_option f (primary_user p)\<rparr>"

definition on_credential :: "(vo_Credential \<Rightarrow> vo_Credential) \<Rightarrow> EnvironmentUser \<Rightarrow> EnvironmentUser" where
  "on_credential f u = u\<lparr>u_credential := map_option f (u_credential u)\<rparr>"

definition on_host_parameters ::
  "(WindowsHostCreateParameters \<Rightarrow> WindowsHostCreateParameters) \<Rightarrow>
   HostEnvironmentCreateParameters \<Rightarrow> HostEnvironmentCreateParameters" where
  "on_host_parameters f p =
     p\<lparr>host_parameters :=
          map_option (\<lambda>v. case v of Obj ob \<Rightarrow> Obj (f ob) | Dict d \<Rightarrow> Dict d) (host_parameters p)\<rparr>"

definition on_hp_host ::
  "(vo_Host \<Rightarrow> vo_Host) \<Rightarrow> WindowsHostCreateParameters \<Rightarrow> WindowsHostCreateParameters" where
  "on_hp_host f hp = hp\<lparr>hp_host := map_option f (hp_host hp)\<rparr>"

definition new_HostEnvironmentCreateParameters :: HostEnvironmentCreateParameters where
  "new_HostEnvironmentCreateParameters =
     \<lparr>host_environment = None, primary_user = None, host_parameters = None\<rparr>"

text \<open>Truth value of an argument that is a string or \<^verbatim>\<open>None\<close>.\<close>

definition truthy :: "string option \<Rightarrow> bool" where
  "truthy v = (case v of None \<Rightarrow> False | Some t \<Rightarrow> t \<noteq> [])"

text \<open>
  \<^verbatim>\<open>create_linux_env\<close>, from the creation of \<^verbatim>\<open>env_params_obj\<close> to the
  assignment of the \<^verbatim>\<open>host_parameters\<close> dictionary.
\<close>

definition linux_env_params_first ::
  "string \<Rightarrow> string \<Rightarrow> string \<Rightarrow> string option \<Rightarrow> string option \<Rightarrow>
   HostEnvironmentCreateParameters" where
  "linux_env_params_first env_name host_user ip_addr toolkit_path passwd =
     (let env_params_obj = new_HostEnvironmentCreateParameters;
          env_params_obj = env_params_obj\<lparr>host_environment :=
                             Some (new_HostEnvironment UnixHostCreateParameters)\<rparr>;
          env_params_obj = on_host_environment
                             (\<lambda>he. he\<lparr>he_host := Some (new_Host UnixHost)\<rparr>) env_params_obj;
          env_params_obj = on_host_environment
                             (on_he_host (\<lambda>h. h\<lparr>h_address := Some ip_addr\<rparr>)) env_params_obj;
          env_params_obj = on_host_environment
                             (\<lambda>he. he\<lparr>he_name := Some env_name\<rparr>) env_params_obj;
          env_params_obj = on_host_environment
                             (on_he_host (\<lambda>h. h\<lparr>h_toolkit_path := toolkit_path\<rparr>)) env_params_obj;
          env_params_obj = env_params_obj\<lparr>primary_user :=
                             Some \<lparr>u_name = None, u_credential = None\<rparr>\<rparr>;
          env_params_obj = on_primary_user (\<lambda>u. u\<lparr>u_name := Some host_user\<rparr>) env_params_obj;
          env_params_obj =
            (if passwd = None
             then on_primary_user
                    (\<lambda>u. u\<lparr>u_credential := Some (new_Credential SystemKeyCredential)\<rparr>)
                    env_params_obj
             else on_primary_user (on_credential (\<lambda>c. c\<lparr>c_password := passwd\<rparr>))
                    (on_primary_user
                       (\<lambda>u. u\<lparr>u_credential := Some (new_Credential PasswordCredential)\<rparr>)
                       env_params_obj))
      in env_params_obj\<lparr>host_parameters :=
           Some (Dict [(''host'', [(''address'', Some ip_addr),
                                   (''type'', Some ''UnixHost''),
                                   (''name'', Some env_name),
                                   (''toolkitPath'', toolkit_path)])])\<rparr>)"

text \<open>
  The block guarded by \<^verbatim>\<open>except KeyError\<close>: two assignments, to
  \<^verbatim>\<open>db_user\<close> and to \<^verbatim>\<open>credentials\<close> (a dictionary literal).
\<close>

definition ase_assign ::
  "string option \<Rightarrow> string option \<Rightarrow> vo_HostEnvironment \<Rightarrow> vo_HostEnvironment result" where
  "ase_assign ase_user ase_pw he =
     Return (he\<lparr>he_ase_host_environment_parameters :=
                map_option
                  (\<lambda>a. a\<lparr>db_user := ase_user,
                          credentials := Some [(''type'', Some ''PasswordCredential''),
                                               (''password'', ase_pw)]\<rparr>)
                  (he_ase_host_environment_parameters he)\<rparr>)"

definition ase_required :: exn where
  "ase_required =
     DlpxException (''--ase_user and --ase_pw ARGUMENTS are required for ASE DBs'' @ [CHR 0x0A])"

text \<open>
  \<^verbatim>\<open>create_linux_env\<close>, from the second assignment of
  \<^verbatim>\<open>host_environment\<close> to the end of the \<^verbatim>\<open>if ase_user\<close> statement.
\<close>

definition linux_env_params ::
  "string \<Rightarrow> string \<Rightarrow> string \<Rightarrow> string option \<Rightarrow> string option \<Rightarrow> string option \<Rightarrow>
   string option \<Rightarrow> HostEnvironmentCreateParameters result" where
  "linux_env_params env_name host_user ip_addr toolkit_path passwd ase_user ase_pw =
     (let env_params_obj = linux_env_params_first env_name host_user ip_addr toolkit_path passwd;
          env_params_obj = env_params_obj\<lparr>host_environment :=
                             Some (new_HostEnvironment UnixHostEnvironment)\<rparr>;
          env_params_obj = on_host_environment
                             (\<lambda>he. he\<lparr>he_name := Some env_name\<rparr>) env_params_obj
      in if truthy ase_user
         then (let env_params_obj =
                     on_host_environment
                       (\<lambda>he. he\<lparr>he_ase_host_environment_parameters :=
                                   Some \<lparr>db_user = None, credentials = None\<rparr>\<rparr>)
                       env_params_obj
               in case host_environment env_params_obj of
                    None \<Rightarrow> Raise (NoneType_has_no_attribute ''ase_host_environment_parameters'')
                  | Some he \<Rightarrow>
                      (case ase_assign ase_user ase_pw he of
                         Return he' \<Rightarrow> Return (env_params_obj\<lparr>host_environment := Some he'\<rparr>)
                       | Raise err \<Rightarrow>
                           if isinstance_KeyError err then Raise ase_required else Raise err))
         else Return env_params_obj)"

definition create_failed :: "exn \<Rightarrow> exn" where
  "create_failed err =
     DlpxException (''ERROR: Encountered an exception while creating the environment:''
                    @ [CHR 0x0A] @ str_exn err)"

definition create_job_failed :: "exn \<Rightarrow> exn" where
  "create_job_failed err =
     DlpxException (''JobError while creating environment:'' @ [CHR 0x0A] @ str_exn err)"

definition create_linux_env ::
  "world \<Rightarrow> session \<Rightarrow> string \<Rightarrow> string \<Rightarrow> string \<Rightarrow> string option \<Rightarrow> string option \<Rightarrow>
   string option \<Rightarrow> string option \<Rightarrow> unit result \<times> session" where
  "create_linux_env w s env_name host_user ip_addr toolkit_path passwd ase_user ase_pw =
     (case dlpx_engines_keys_0 s of
        Raise err \<Rightarrow> (Raise err, s)
      | Return engine_name \<Rightarrow>
          (case linux_env_params env_name host_user ip_addr toolkit_path passwd ase_user ase_pw of
             Raise err \<Rightarrow> (Raise err, s)
           | Return env_params_obj \<Rightarrow>
               (case invoke w (environment_create env_params_obj) s of
                  (Return u, s') \<Rightarrow>
                    (Return (), s'\<lparr>jobs := (jobs s')(engine_name \<mapsto> last_job s')\<rparr>)
                | (Raise err, s') \<Rightarrow>
                    if dlpx_or_request_or_http w err then (Raise (create_failed err), s')
                    else if isinstance_JobError err then (Raise (create_job_failed err), s')
                    else (Raise err, s'))))"

text \<open>
  \<^verbatim>\<open>create_windows_env\<close>, from the creation of \<^verbatim>\<open>env_params_obj\<close> to the
  assignment of the name of the \<^verbatim>\<open>WindowsHostEnvironment\<close>.
\<close>

definition windows_env_params ::
  "string \<Rightarrow> string \<Rightarrow> string \<Rightarrow> string option \<Rightarrow> HostEnvironmentCreateParameters" where
  "windows_env_params env_name host_user ip_addr passwd =
     (let env_params_obj = new_HostEnvironmentCreateParameters;
          env_params_obj = env_params_obj\<lparr>primary_user :=
                             Some \<lparr>u_name = None, u_credential = None\<rparr>\<rparr>;
          env_params_obj = on_primary_user (\<lambda>u. u\<lparr>u_name := Some host_user\<rparr>) env_params_obj;
          env_params_obj = on_primary_user
                             (\<lambda>u. u\<lparr>u_credential := Some (new_Credential PasswordCredential)\<rparr>)
                             env_params_obj;
          env_params_obj = on_primary_user (on_credential (\<lambda>c. c\<lparr>c_password := passwd\<rparr>))
                             env_params_obj;
          env_params_obj = env_params_obj\<lparr>host_parameters :=
                             Some (Obj \<lparr>hp_host = None, hp_name = None\<rparr>)\<rparr>;
          env_params_obj = on_host_parameters
                             (\<lambda>hp. hp\<lparr>hp_host := Some (new_Host WindowsHost)\<rparr>) env_params_obj;
          env_params_obj = on_host_parameters
                             (\<lambda>hp. hp\<lparr>hp_name := Some env_name\<rparr>) env_params_obj;
          env_params_obj = on_host_parameters
                             (on_hp_host (\<lambda>h. h\<lparr>h_connector_port := Some 9100\<rparr>)) env_params_obj;
          env_params_obj = on_host_parameters
                             (on_hp_host (\<lambda>h. h\<lparr>h_address := Some ip_addr\<rparr>)) env_params_obj;
          env_params_obj = env_params_obj\<lparr>host_environment :=
                             Some (new_HostEnvironment WindowsHostEnvironment)\<rparr>
      in on_host_environment (\<lambda>he. he\<lparr>he_name := Some env_name\<rparr>) env_params_obj)"

text \<open>
  \<^verbatim>\<open>env_obj = None\<close>, then the lookup under \<^verbatim>\<open>if connector_name\<close>.
\<close>

definition connector_lookup :: "world \<Rightarrow> string option \<Rightarrow> Environment option result" where
  "connector_lookup w connector_name =
     (case connector_name of
        None \<Rightarrow> Return None
      | Some c \<Rightarrow> if c \<noteq> [] then find_obj_by_name_environment w c else Return None)"

definition host_not_found :: "string option \<Rightarrow> exn" where
  "host_not_found connector_name =
     DlpxObjectNotFound (''Host was not found in the Engine: '' @ str_opt connector_name)"

definition create_windows_env ::
  "world \<Rightarrow> session \<Rightarrow> string \<Rightarrow> string \<Rightarrow> string \<Rightarrow> string option \<Rightarrow> string option \<Rightarrow>
   unit result \<times> session" where
  "create_windows_env w s env_name host_user ip_addr passwd connector_name =
     (case dlpx_engines_keys_0 s of
        Raise err \<Rightarrow> (Raise err, s)
      | Return engine_name \<Rightarrow>
          (let env_params_obj = windows_env_params env_name host_user ip_addr passwd
           in case connector_lookup w connector_name of
                Raise err \<Rightarrow> (Raise err, s)
              | Return None \<Rightarrow> (Raise (host_not_found connector_name), s)
              | Return (Some env_obj) \<Rightarrow>
                  (case e_host env_obj of
                     None \<Rightarrow> (Raise (AttributeError ''host''), s)
                   | Some h \<Rightarrow>
                       (let env_params_obj =
                              on_host_environment (\<lambda>he. he\<lparr>he_proxy := Some h\<rparr>) env_params_obj
                        in case invoke w (environment_create env_params_obj) s of
                             (Return u, s') \<Rightarrow>
                               (Return (),
                                s'\<lparr>jobs := (jobs s')(engine_name \<mapsto> last_job s')\<rparr>)
                           | (Raise err, s') \<Rightarrow>
                               if dlpx_or_request_or_http w err
                               then (Raise (create_failed err), s')
                               else (Raise err, s')))))"

text \<open>
  The answers of the engine to the refresh calls that the loop of
  \<^verbatim>\<open>refresh_env("all")\<close> makes, in the order of the calls, starting after the calls
  \<open>h\<close>: the loop goes on after an answer and after a caught exception, and ends with
  an exception of another class.
\<close>

fun refresh_all_answers ::
  "world \<Rightarrow> vendor_call list \<Rightarrow> Environment list \<Rightarrow> string option result list" where
  "refresh_all_answers w h [] = []"
| "refresh_all_answers w h (env_obj # env_list) =
     (case engine w h (environment_refresh (e_reference env_obj)) of
        Return j \<Rightarrow>
          Return j # refresh_all_answers w (h @ [environment_refresh (e_reference env_obj)])
                       env_list
      | Raise err \<Rightarrow>
          Raise err #
            (if dlpx_or_request w err
             then refresh_all_answers w (h @ [environment_refresh (e_reference env_obj)])
                    env_list
             else []))"

text \<open>The jobs of the answers that are not exceptions.\<close>

fun returned_jobs :: "string option result list \<Rightarrow> string option list" where
  "returned_jobs [] = []"
| "returned_jobs (Return j # answers) = j # returned_jobs answers"
| "returned_jobs (Raise err # answers) = returned_jobs answers"

section \<open>The workflow of one engine\<close>

text \<open>A value of the \<^verbatim>\<open>ARGUMENTS\<close> dictionary.\<close>

datatype argument = ArgNone | ArgStr string | ArgBool bool

text \<open>Subscript of a dictionary with string keys.\<close>

definition getitem :: "(string \<rightharpoonup> 'a) \<Rightarrow> string \<Rightarrow> 'a result" where
  "getitem d k =
     (case d k of
        None \<Rightarrow> Raise (KeyError ([CHR 0x27] @ k @ [CHR 0x27]))
      | Some v \<Rightarrow> Return v)"

fun truthy_argument :: "argument \<Rightarrow> bool" where
  "truthy_argument ArgNone = False"
| "truthy_argument (ArgStr t) = (t \<noteq> [])"
| "truthy_argument (ArgBool b) = b"

fun str_argument :: "argument \<Rightarrow> string" where
  "str_argument ArgNone = ''None''"
| "str_argument (ArgStr t) = t"
| "str_argument (ArgBool b) = str_bool b"

text \<open>
  The action functions above take a string where their docstrings say \<^verbatim>\<open>str\<close>, and
  a string or \<^verbatim>\<open>None\<close> for the optional arguments. \<^verbatim>\<open>main_workflow\<close> hands
  them values of \<^verbatim>\<open>ARGUMENTS\<close>; a value of another type in such a place is outside
  these types, and the run is then \<open>Untyped\<close>.
\<close>

datatype 'a typed = Typed 'a | Untyped

fun as_str :: "argument \<Rightarrow> string option" where
  "as_str (ArgStr t) = Some t"
| "as_str a = None"

fun as_str_or_None :: "argument \<Rightarrow> string option option" where
  "as_str_or_None ArgNone = Some None"
| "as_str_or_None (ArgStr t) = Some (Some t)"
| "as_str_or_None (ArgBool b) = None"

text \<open>\<^verbatim>\<open>ARGUMENTS[k]\<close> inside \<^verbatim>\<open>main_workflow\<close>, followed by what uses the value.\<close>

definition item ::
  "(string \<rightharpoonup> argument) \<Rightarrow> string \<Rightarrow> session \<Rightarrow>
   (argument \<Rightarrow> (unit result \<times> session) typed) \<Rightarrow> (unit result \<times> session) typed" where
  "item args k s f =
     (case getitem args k of Raise err \<Rightarrow> Typed (Raise err, s) | Return v \<Rightarrow> f v)"

text \<open>
  The body of \<^verbatim>\<open>if thingstodo\<close> up to the call of the action function: the four
  reads of \<^verbatim>\<open>ARGUMENTS\<close>, then the chain of \<^verbatim>\<open>if\<close> and \<^verbatim>\<open>elif\<close>.
  \<^verbatim>\<open>create_linux_env\<close> is called without \<^verbatim>\<open>ase_user\<close> and \<^verbatim>\<open>ase_pw\<close>.
\<close>

definition workflow_action ::
  "world \<Rightarrow> (string \<rightharpoonup> argument) \<Rightarrow> session \<Rightarrow> (unit result \<times> session) typed" where
  "workflow_action w args s =
     item args ''--env_name'' s (\<lambda>env_name.
     item args ''--host_user'' s (\<lambda>host_user.
     item args ''--passwd'' s (\<lambda>passwd.
     item args ''--ip'' s (\<lambda>ip_addr.
     item args ''--type'' s (\<lambda>type_arg.
       if type_arg = ArgStr ''windows''
       then item args ''--connector_name'' s (\<lambda>host_name.
              case (as_str env_name, as_str host_user, as_str ip_addr,
                    as_str_or_None passwd, as_str_or_None host_name) of
                (Some n, Some u, Some i, Some p, Some c) \<Rightarrow>
                  Typed (create_windows_env w s n u i p c)
              | _ \<Rightarrow> Untyped)
       else if type_arg = ArgStr ''linux''
       then item args ''--toolkit'' s (\<lambda>toolkit_path.
              case (as_str env_name, as_str host_user, as_str ip_addr,
                    as_str_or_None toolkit_path, as_str_or_None passwd) of
                (Some n, Some u, Some i, Some t, Some p) \<Rightarrow>
                  Typed (create_linux_env w s n u i t p None None)
              | _ \<Rightarrow> Untyped)
       else item args ''--delete'' s (\<lambda>delete_arg.
       if truthy_argument delete_arg
       then (case as_str delete_arg of
               Some n \<Rightarrow> Typed (delete_env w s n) | None \<Rightarrow> Untyped)
       else item args ''--refresh'' s (\<lambda>refresh_arg.
       if truthy_argument refresh_arg
       then (case as_str refresh_arg of
               Some n \<Rightarrow> Typed (refresh_env w s n) | None \<Rightarrow> Untyped)
       else item args ''--list'' s (\<lambda>list_arg.
       if truthy_argument list_arg
       then Typed (list_env w s)
       else item args ''--update_host'' s (\<lambda>update_host_arg.
       if truthy_argument update_host_arg
       then item args ''--old_host_address'' s (\<lambda>old_host_address.
            item args ''--new_host_address'' s (\<lambda>new_host_address.
              case (as_str old_host_address, as_str new_host_address) of
                (Some a, Some b) \<Rightarrow> Typed (update_host_address w s a b)
              | _ \<Rightarrow> Untyped))
       else item args ''--enable'' s (\<lambda>enable_arg.
       if truthy_argument enable_arg
       then item args ''--env_name'' s (\<lambda>name_arg.
              case as_str name_arg of
                Some n \<Rightarrow> Typed (enable_environment w s n) | None \<Rightarrow> Untyped)
       else item args ''--disable'' s (\<lambda>disable_arg.
       if truthy_argument disable_arg
       then item args ''--env_name'' s (\<lambda>name_arg.
              case as_str name_arg of
                Some n \<Rightarrow> Typed (disable_environment w s n) | None \<Rightarrow> Untyped)
       else Typed (Return (), s))))))))))))"

text \<open>
  The collaborators of \<^verbatim>\<open>main_workflow\<close>: the outcome of
  \<^verbatim>\<open>dlpx_obj.dlpx_session(ip_address, username, password)\<close>, the outcome of entering
  \<^verbatim>\<open>dlpx_obj.job_mode(single_thread)\<close> (leaving it is taken neither to raise nor to
  catch), and \<^verbatim>\<open>run_job.find_job_state(engine, dlpx_obj)\<close>, which may change the
  session and may raise.
\<close>

record workflow_lib =
  dlpx_session_answer :: "string \<Rightarrow> string \<Rightarrow> string \<Rightarrow> unit result"
  job_mode_answer :: "argument \<Rightarrow> unit result"
  find_job_state :: "session \<Rightarrow> unit result \<times> session"

text \<open>
  One round of the loop with \<^verbatim>\<open>thingstodo\<close> not empty: the action, then
  \<^verbatim>\<open>thingstodo.pop()\<close>, then \<^verbatim>\<open>find_job_state\<close>.
\<close>

definition workflow_round ::
  "world \<Rightarrow> workflow_lib \<Rightarrow> (string \<rightharpoonup> argument) \<Rightarrow> session \<Rightarrow> (unit result \<times> session) typed" where
  "workflow_round w lib args s =
     (case workflow_action w args s of
        Untyped \<Rightarrow> Untyped
      | Typed (Raise err, s') \<Rightarrow> Typed (Raise err, s')
      | Typed (Return u, s') \<Rightarrow> Typed (find_job_state lib s'))"

text \<open>
  \<^verbatim>\<open>while dlpx_obj.jobs or thingstodo\<close>. A round with \<^verbatim>\<open>thingstodo\<close> empty does
  nothing, so the loop never ends once the list is empty and the job mapping is not:
  the value is then \<open>None\<close>.
\<close>

partial_function (option) workflow_while ::
  "(session \<Rightarrow> (unit result \<times> session) typed) \<Rightarrow> string list \<Rightarrow> session \<Rightarrow>
   (unit result \<times> session) typed option" where
  "workflow_while round thingstodo s =
     (if jobs s = Map.empty \<and> thingstodo = []
      then Some (Typed (Return (), s))
      else if thingstodo = []
      then workflow_while round thingstodo s
      else (case round s of
              Untyped \<Rightarrow> Some Untyped
            | Typed (Raise err, s') \<Rightarrow> Some (Typed (Raise err, s'))
            | Typed (Return u, s') \<Rightarrow> workflow_while round (butlast thingstodo) s'))"

text \<open>The tuple of exception classes of the last handler of \<^verbatim>\<open>main_workflow\<close>.\<close>

definition workflow_caught :: "world \<Rightarrow> exn \<Rightarrow> bool" where
  "workflow_caught w err =
     (isinstance_DlpxException (notfound_is_dlpx w) err \<or> isinstance_RequestError err
      \<or> isinstance_JobError err \<or> isinstance_HttpError err)"

text \<open>The first \<^verbatim>\<open>try\<close> statement of \<^verbatim>\<open>main_workflow\<close>.\<close>

definition workflow_authenticate ::
  "world \<Rightarrow> workflow_lib \<Rightarrow> (string \<rightharpoonup> argument) \<Rightarrow> (string \<rightharpoonup> string) \<Rightarrow> session \<Rightarrow>
   unit result \<times> session" where
  "workflow_authenticate w lib args engine_dict s =
     (case getitem engine_dict ''ip_address'' of
        Raise err \<Rightarrow> (Raise err, s)
      | Return ip_address \<Rightarrow>
     (case getitem engine_dict ''username'' of
        Raise err \<Rightarrow> (Raise err, s)
      | Return username \<Rightarrow>
     (case getitem engine_dict ''password'' of
        Raise err \<Rightarrow> (Raise err, s)
      | Return password \<Rightarrow>
     (case dlpx_session_answer lib ip_address username password of
        Return u \<Rightarrow> (Return (), s)
      | Raise err \<Rightarrow>
          if isinstance_DlpxException (notfound_is_dlpx w) err
          then (case getitem engine_dict ''hostname'' of
                  Raise key_err \<Rightarrow> (Raise key_err, s)
                | Return hostname \<Rightarrow>
                    (case getitem args ''--target'' of
                       Raise key_err \<Rightarrow> (Raise key_err, s)
                     | Return target \<Rightarrow>
                         (Return (),
                          s\<lparr>logged := logged s @
                             [''ERROR: dx_environment encountered an error authenticating to ''
                              @ '' '' @ hostname @ '' '' @ str_argument target @ '':''
                              @ [CHR 0x0A] @ str_exn err]\<rparr>)))
          else (Raise err, s)))))"

text \<open>
  \<^verbatim>\<open>main_workflow\<close>, the function that the decorator \<^verbatim>\<open>run_async\<close> runs in a
  thread of its own: the authentication, then the guarded block with the loop, then the
  handler that logs an exception of the four classes and lets the function return.
\<close>

definition main_workflow ::
  "world \<Rightarrow> workflow_lib \<Rightarrow> (string \<rightharpoonup> argument) \<Rightarrow> (string \<rightharpoonup> string) \<Rightarrow> session \<Rightarrow>
   argument \<Rightarrow> (unit result \<times> session) typed option" where
  "main_workflow w lib args engine_dict s single_thread =
     (case workflow_authenticate w lib args engine_dict s of
        (Raise err, s0) \<Rightarrow> Some (Typed (Raise err, s0))
      | (Return u, s0) \<Rightarrow>
          (case (case job_mode_answer lib single_thread of
                   Raise err \<Rightarrow> Some (Typed (Raise err, s0))
                 | Return u \<Rightarrow>
                     workflow_while (workflow_round w lib args) [''thingstodo''] s0) of
             None \<Rightarrow> None
           | Some Untyped \<Rightarrow> Some Untyped
           | Some (Typed (Return u, s')) \<Rightarrow> Some (Typed (Return (), s'))
           | Some (Typed (Raise err, s')) \<Rightarrow>
               if workflow_caught w err
               then (case getitem engine_dict ''hostname'' of
                       Raise key_err \<Rightarrow> Some (Typed (Raise key_err, s'))
                     | Return hostname \<Rightarrow>
                         Some (Typed (Return (),
                           s'\<lparr>logged := logged s' @
                               [''Error in dx_environment: '' @ hostname @ [CHR 0x0A]
                                @ str_exn err]\<rparr>)))
               else Some (Typed (Raise err, s'))))"

section \<open>The top level\<close>

text \<open>
  What \<^verbatim>\<open>main\<close> runs inside its \<^verbatim>\<open>try\<close>: the dictionary
  \<^verbatim>\<open>ARGUMENTS\<close> and the outcome of each collaborator call.
  \<open>run_job_answer\<close> gives the threads that \<^verbatim>\<open>run_job.run_job\<close> yields, each by
  the outcome of its \<^verbatim>\<open>join()\<close>.
\<close>

record script =
  ARGUMENTS :: "string \<rightharpoonup> argument"
  not_found_is_dlpx :: bool
  GetSession_answer :: "unit result"
  logging_est_answer :: "argument \<Rightarrow> unit result"
  get_config_answer :: "argument \<Rightarrow> unit result"
  run_job_answer :: "argument \<Rightarrow> argument \<Rightarrow> unit result list result"
  time_elapsed_answer :: "unit result"
  print_info_answer :: "unit result"

definition and_then :: "'a result \<Rightarrow> ('a \<Rightarrow> 'b result) \<Rightarrow> 'b result" where
  "and_then r f = (case r of Raise err \<Rightarrow> Raise err | Return v \<Rightarrow> f v)"

definition subscript :: "script \<Rightarrow> string \<Rightarrow> argument result" where
  "subscript m k = getitem (ARGUMENTS m) k"

fun join_each :: "unit result list \<Rightarrow> unit result" where
  "join_each [] = Return ()"
| "join_each (each # rest) = (case each of Raise err \<Rightarrow> Raise err | Return u \<Rightarrow> join_each rest)"

definition main_try :: "script \<Rightarrow> unit result" where
  "main_try m =
     and_then (GetSession_answer m) (\<lambda>dx_session_obj.
     and_then (subscript m ''--logdir'') (\<lambda>logdir.
     and_then (logging_est_answer m logdir) (\<lambda>u.
     and_then (subscript m ''--config'') (\<lambda>config_file_path.
     and_then (subscript m ''--single_thread'') (\<lambda>single_thread.
     and_then (subscript m ''--engine'') (\<lambda>engine_arg.
     and_then (get_config_answer m config_file_path) (\<lambda>u.
     and_then (run_job_answer m engine_arg single_thread) (\<lambda>threads.
     and_then (join_each threads) (\<lambda>u.
     and_then (time_elapsed_answer m) (\<lambda>elapsed_minutes.
     print_info_answer m))))))))))"

text \<open>
  \<^verbatim>\<open>main\<close>: the handlers in the order of the source. \<^verbatim>\<open>sys.exit(err)\<close> with
  \<^verbatim>\<open>err\<close> the caught \<^verbatim>\<open>SystemExit\<close> raises that very exception again;
  \<^verbatim>\<open>sys.exit(2)\<close> raises \<^verbatim>\<open>SystemExit\<close> with code 2. The handler of
  \<^verbatim>\<open>KeyboardInterrupt\<close> logs and returns. The logging calls of the handlers are
  taken to return.
\<close>

definition main :: "script \<Rightarrow> unit result" where
  "main m =
     (case main_try m of
        Return u \<Rightarrow> Return ()
      | Raise err \<Rightarrow>
          (case err of
             SystemExit a \<Rightarrow> Raise (SystemExit a)
           | KeyboardInterrupt \<Rightarrow> Return ()
           | _ \<Rightarrow>
               if isinstance_DlpxException (not_found_is_dlpx m) err
               then Raise (SystemExit (ExitInt 2))
               else if isinstance_HttpError err then Raise (SystemExit (ExitInt 2))
               else if isinstance_JobError err then Raise (SystemExit (ExitInt 3))
               else Raise err))"

text \<open>
  How the interpreter ends the process when \<^verbatim>\<open>main()\<close>, the last statement of
  the script, has returned or raised, on a POSIX system where a C \<^verbatim>\<open>long\<close> has 64
  bits. After a return the exit status is 0. After \<^verbatim>\<open>SystemExit\<close> it is 0 when
  the code is \<^verbatim>\<open>None\<close>; the code modulo 256 when the code is an integer that fits
  a \<^verbatim>\<open>long\<close>, and 255 when it does not; and 1 (the object is printed) for any other
  code. Any other exception is uncaught.
\<close>

datatype process_end = Exit int | Uncaught exn

definition exit_status :: "exit_arg \<Rightarrow> int" where
  "exit_status a =
     (case a of
        ExitNone \<Rightarrow> 0
      | ExitInt n \<Rightarrow> if - (2 ^ 63) \<le> n \<and> n < 2 ^ 63 then n mod 256 else 255
      | ExitObj t \<Rightarrow> 1)"

fun interpreter_end :: "unit result \<Rightarrow> process_end" where
  "interpreter_end (Return u) = Exit 0"
| "interpreter_end (Raise (SystemExit a)) = Exit (exit_status a)"
| "interpreter_end (Raise err) = Uncaught err"

section \<open>Sample sessions and collaborators\<close>

definition session0 :: session where
  "session0 = \<lparr>dlpx_engines_keys_0 = Return ''engine1'', jobs = Map.empty, last_job = None,
                issued = [], logged = [], printed = []\<rparr>"

definition env_source :: Environment where
  "env_source = \<lparr>e_reference = ''UNIX_HOST_ENVIRONMENT-1'', e_name = ''SOURCE'',
                  e_type = ''UnixHostEnvironment'', e_enabled = True,
                  e_primary_user = ''HOST_USER-1'', e_host = Some ''UNIX_HOST-1'',
                  e_ase_host_environment_parameters = None\<rparr>"

definition env_target :: Environment where
  "env_target = \<lparr>e_reference = ''UNIX_HOST_ENVIRONMENT-2'', e_name = ''TARGET'',
                  e_type = ''UnixHostEnvironment'', e_enabled = True,
                  e_primary_user = ''HOST_USER-2'', e_host = Some ''UNIX_HOST-2'',
                  e_ase_host_environment_parameters = None\<rparr>"

definition host_windows :: Host where
  "host_windows = \<lparr>ho_reference = ''WINDOWS_HOST-3'', ho_type = ''WindowsHost''\<rparr>"

definition host_unix :: Host where
  "host_unix = \<lparr>ho_reference = ''UNIX_HOST-1'', ho_type = ''UnixHost''\<rparr>"

text \<open>
  An engine with the environments \<open>SOURCE\<close> and \<open>TARGET\<close> where every call succeeds
  and starts the job \<open>JOB-1\<close>; a lookup of another name returns \<^verbatim>\<open>None\<close>.
\<close>

definition world0 :: world where
  "world0 =
     \<lparr>notfound_is_dlpx = False,
      find_obj_by_name_environment =
        (\<lambda>n. if n = ''SOURCE'' then Return (Some env_source)
             else if n = ''TARGET'' then Return (Some env_target) else Return None),
      find_obj_by_name_host =
        (\<lambda>a. if a = ''10.0.1.50'' then Return (Some host_windows)
             else if a = ''10.0.1.20'' then Return (Some host_unix) else Return None),
      find_all_objects_environment = Return [env_source, env_target],
      find_obj_name_user = (\<lambda>r. Return ''delphix''),
      find_obj_name_host = (\<lambda>r. Return ''10.0.1.20''),
      get_all_answer = (\<lambda>h. Return [env_source, env_target]),
      engine = (\<lambda>h c. Return (Some ''JOB-1''))\<rparr>"

text \<open>The same engine where every vendor call fails with \<open>err\<close>.\<close>

definition world_failing :: "exn \<Rightarrow> world" where
  "world_failing err = world0\<lparr>get_all_answer := (\<lambda>h. Raise err), engine := (\<lambda>h c. Raise err)\<rparr>"

text \<open>The same engine where only the refresh of \<open>SOURCE\<close> fails, with \<open>err\<close>.\<close>

definition world_source_failing :: "exn \<Rightarrow> world" where
  "world_source_failing err =
     world0\<lparr>engine := (\<lambda>h c. if c = environment_refresh ''UNIX_HOST_ENVIRONMENT-1''
                              then Raise err else Return (Some ''JOB-2''))\<rparr>"

text \<open>
  The same engine where the refresh of \<open>SOURCE\<close> starts \<open>JOB-1\<close>, the refresh of
  \<open>TARGET\<close> starts \<open>JOB-2\<close> and any other call starts \<open>JOB-3\<close>.
\<close>

definition world_two_jobs :: world where
  "world_two_jobs =
     world0\<lparr>engine := (\<lambda>h c. if c = environment_refresh ''UNIX_HOST_ENVIRONMENT-1''
                              then Return (Some ''JOB-1'')
                              else if c = environment_refresh ''UNIX_HOST_ENVIRONMENT-2''
                              then Return (Some ''JOB-2'') else Return (Some ''JOB-3''))\<rparr>"

text \<open>
  The same engine where the refresh of \<open>SOURCE\<close> starts \<open>JOB-1\<close> and the refresh of
  \<open>TARGET\<close> fails with \<open>err\<close>.
\<close>

definition world_target_failing :: "exn \<Rightarrow> world" where
  "world_target_failing err =
     world0\<lparr>engine := (\<lambda>h c. if c = environment_refresh ''UNIX_HOST_ENVIRONMENT-2''
                              then Raise err else Return (Some ''JOB-1''))\<rparr>"

text \<open>
  The dictionary that \<^verbatim>\<open>docopt\<close> builds from the usage text of the script: one key
  for each option that the usage patterns name, here at its value when the command
  line does not give the option (\<^verbatim>\<open>None\<close> for an option with an argument, the
  default of the option list for \<^verbatim>\<open>--poll\<close>, \<^verbatim>\<open>--config\<close> and
  \<^verbatim>\<open>--logdir\<close>, \<^verbatim>\<open>False\<close> for a flag). The usage text names no option
  \<^verbatim>\<open>--single_thread\<close> and no option \<^verbatim>\<open>--target\<close>.
\<close>

definition ARGUMENTS_defaults :: "(string \<times> argument) list" where
  "ARGUMENTS_defaults =
     [(''--type'', ArgNone), (''--env_name'', ArgNone), (''--host_user'', ArgNone),
      (''--ip'', ArgNone), (''--toolkit'', ArgNone), (''--ase_user'', ArgNone),
      (''--ase_pw'', ArgNone), (''--update_ase_pw'', ArgNone),
      (''--update_ase_user'', ArgNone), (''--delete'', ArgNone), (''--refresh'', ArgNone),
      (''--list'', ArgBool False), (''--logdir'', ArgStr ''./dx_environment.log''),
      (''--debug'', ArgBool False), (''--config'', ArgStr ''./dxtools.conf''),
      (''--connector_name'', ArgNone), (''--passwd'', ArgNone), (''--engine'', ArgNone),
      (''--all'', ArgBool False), (''--poll'', ArgStr ''10''),
      (''--update_host'', ArgBool False), (''--old_host_address'', ArgNone),
      (''--new_host_address'', ArgNone), (''--enable'', ArgBool False),
      (''--disable'', ArgBool False), (''--help'', ArgBool False),
      (''--version'', ArgBool False)]"

definition ARGUMENTS_of :: "(string \<times> argument) list \<Rightarrow> string \<rightharpoonup> argument" where
  "ARGUMENTS_of given = map_of (given @ ARGUMENTS_defaults)"

text \<open>
  The command line
  \<^verbatim>\<open>--type linux --env_name test1 --host_user delphix --ip 182.1.1.1 --toolkit /var/opt/delphix\<close>.
\<close>

definition ARGUMENTS_create_linux :: "string \<rightharpoonup> argument" where
  "ARGUMENTS_create_linux =
     ARGUMENTS_of [(''--type'', ArgStr ''linux''), (''--env_name'', ArgStr ''test1''),
                   (''--host_user'', ArgStr ''delphix''), (''--ip'', ArgStr ''182.1.1.1''),
                   (''--toolkit'', ArgStr ''/var/opt/delphix'')]"

text \<open>The request that \<^verbatim>\<open>create_linux_env\<close> builds for that command line.\<close>

definition request_test1 :: HostEnvironmentCreateParameters where
  "request_test1 =
     \<lparr>host_environment =
        Some \<lparr>he_class = UnixHostEnvironment, he_name = Some ''test1'', he_host = None,
              he_ase_host_environment_parameters = None, he_proxy = None\<rparr>,
      primary_user =
        Some \<lparr>u_name = Some ''delphix'',
              u_credential = Some \<lparr>c_class = SystemKeyCredential, c_password = None\<rparr>\<rparr>,
      host_parameters =
        Some (Dict [(''host'', [(''address'', Some ''182.1.1.1''), (''type'', Some ''UnixHost''),
                                (''name'', Some ''test1''),
                                (''toolkitPath'', Some ''/var/opt/delphix'')])])\<rparr>"

text \<open>An entry of the configured engines, as \<^verbatim>\<open>main_workflow\<close> reads it.\<close>

definition engine0 :: "string \<rightharpoonup> string" where
  "engine0 = [''ip_address'' \<mapsto> ''10.0.1.10'', ''username'' \<mapsto> ''admin'',
              ''password'' \<mapsto> ''secret'', ''hostname'' \<mapsto> ''landsharkengine'']"

text \<open>
  Collaborators of \<^verbatim>\<open>main_workflow\<close> that return; \<^verbatim>\<open>find_job_state\<close> waits for
  the jobs and leaves the job mapping empty.
\<close>

definition lib0 :: workflow_lib where
  "lib0 = \<lparr>dlpx_session_answer = (\<lambda>ip_address username password. Return ()),
           job_mode_answer = (\<lambda>single_thread. Return ()),
           find_job_state = (\<lambda>s. (Return (), s\<lparr>jobs := Map.empty\<rparr>))\<rparr>"

text \<open>A run of the script with the dictionary \<open>args\<close> where every collaborator returns.\<close>

definition script_ok :: "(string \<rightharpoonup> argument) \<Rightarrow> script" where
  "script_ok args =
     \<lparr>ARGUMENTS = args,
      not_found_is_dlpx = False,
      GetSession_answer = Return (),
      logging_est_answer = (\<lambda>a. Return ()),
      get_config_answer = (\<lambda>a. Return ()),
      run_job_answer = (\<lambda>a b. Return [Return ()]),
      time_elapsed_answer = Return (),
      print_info_answer = Return ()\<rparr>"

section \<open>The request objects, computed\<close>

lemma linux_env_params_value:
  "linux_env_params env_name host_user ip_addr toolkit_path passwd ase_user ase_pw =
     Return
       \<lparr>host_environment =
          Some \<lparr>he_class = UnixHostEnvironment, he_name = Some env_name, he_host = None,
                he_ase_host_environment_parameters =
                  (if truthy ase_user
                   then Some \<lparr>db_user = ase_user,
                              credentials = Some [(''type'', Some ''PasswordCredential''),
                                                  (''password'', ase_pw)]\<rparr>
                   else None),
                he_proxy = None\<rparr>,
        primary_user =
          Some \<lparr>u_name = Some host_user,
                u_credential =
                  Some (case passwd of
                          None \<Rightarrow> \<lparr>c_class = SystemKeyCredential, c_password = None\<rparr>
                        | Some pw \<Rightarrow> \<lparr>c_class = PasswordCredential, c_password = Some pw\<rparr>)\<rparr>,
        host_parameters =
          Some (Dict [(''host'', [(''address'', Some ip_addr), (''type'', Some ''UnixHost''),
                                  (''name'', Some env_name), (''toolkitPath'', toolkit_path)])])\<rparr>"
  by (cases passwd)
     (simp_all add: linux_env_params_def linux_env_params_first_def Let_def on_host_environment_def
      on_primary_user_def on_credential_def on_he_host_def new_HostEnvironmentCreateParameters_def
      new_Credential_def new_HostEnvironment_def new_Host_def ase_assign_def)

lemma linux_env_params_first_value:
  "linux_env_params_first env_name host_user ip_addr toolkit_path passwd =
       \<lparr>host_environment =
          Some \<lparr>he_class = UnixHostCreateParameters, he_name = Some env_name,
                he_host = Some \<lparr>h_class = UnixHost, h_address = Some ip_addr, h_name = None,
                                  h_toolkit_path = toolkit_path, h_connector_port = None\<rparr>,
                he_ase_host_environment_parameters = None,
                he_proxy = None\<rparr>,
        primary_user =
          Some \<lparr>u_name = Some host_user,
                u_credential =
                  Some (case passwd of
                          None \<Rightarrow> \<lparr>c_class = SystemKeyCredential, c_password = None\<rparr>
                        | Some pw \<Rightarrow> \<lparr>c_class = PasswordCredential, c_password = Some pw\<rparr>)\<rparr>,
        host_parameters =
          Some (Dict [(''host'', [(''address'', Some ip_addr), (''type'', Some ''UnixHost''),
                                  (''name'', Some env_name), (''toolkitPath'', toolkit_path)])])\<rparr>"
  by (cases passwd)
     (simp_all add: linux_env_params_first_def Let_def on_host_environment_def
      on_primary_user_def on_credential_def on_he_host_def new_HostEnvironmentCreateParameters_def
      new_Credential_def new_HostEnvironment_def new_Host_def)

lemma windows_env_params_value:
  "windows_env_params env_name host_user ip_addr passwd =
       \<lparr>host_environment =
          Some \<lparr>he_class = WindowsHostEnvironment, he_name = Some env_name, he_host = None,
                he_ase_host_environment_parameters = None, he_proxy = None\<rparr>,
        primary_user =
          Some \<lparr>u_name = Some host_user,
                u_credential = Some \<lparr>c_class = PasswordCredential, c_password = passwd\<rparr>\<rparr>,
        host_parameters =
          Some (Obj \<lparr>hp_host = Some \<lparr>h_class = WindowsHost, h_address = Some ip_addr,
                                      h_name = None, h_toolkit_path = None,
                                      h_connector_port = Some 9100\<rparr>,
                     hp_name = Some env_name\<rparr>)\<rparr>"
  by (simp add: windows_env_params_def Let_def on_host_environment_def
      on_primary_user_def on_credential_def on_host_parameters_def on_hp_host_def
      new_HostEnvironmentCreateParameters_def
      new_Credential_def new_HostEnvironment_def new_Host_def)

lemma create_linux_env_issued:
  "dlpx_engines_keys_0 s = Return engine_name \<Longrightarrow>
   linux_env_params env_name host_user ip_addr toolkit_path passwd ase_user ase_pw = Return p \<Longrightarrow>
   issued (snd (create_linux_env w s env_name host_user ip_addr toolkit_path passwd ase_user ase_pw))
     = issued s @ [environment_create p]"
  by (simp add: create_linux_env_def invoke_def split: result.splits)

section \<open>Deleting an environment\<close>

text \<open>
  Whenever the lookup gives no environment object, whether it returns \<^verbatim>\<open>None\<close> or
  raises, \<^verbatim>\<open>delete_env\<close> leaves the session as it was: no call is issued and the
  job mapping is untouched.
\<close>

lemma delete_env_unresolved_no_call:
  assumes "\<forall>env_obj. find_obj_by_name_environment w env_name \<noteq> Return (Some env_obj)"
  shows "snd (delete_env w s env_name) = s"
proof (cases "dlpx_engines_keys_0 s")
  case (Raise err)
  then show ?thesis by (simp add: delete_env_def)
next
  case (Return engine_name)
  show ?thesis
  proof (cases "find_obj_by_name_environment w env_name")
    case (Raise err)
    with Return show ?thesis by (simp add: delete_env_def)
  next
    case found: (Return r)
    with assms have "r = None" by (cases r) simp_all
    with Return found show ?thesis by (simp add: delete_env_def)
  qed
qed

text \<open>
  Claim C1. When the lookup of the name returns \<^verbatim>\<open>None\<close>, \<^verbatim>\<open>delete_env\<close> should
  raise a "not found" error, issue no delete call and leave the job mapping as it was.
  On the engine \<open>world0\<close>, which has no environment \<open>missing\<close>, the function issues no
  call and leaves the session as it was, but it returns instead of raising: the
  \<^verbatim>\<open>DlpxObjectNotFound\<close> object is built and dropped.
\<close>

theorem delete_env_unresolved_returns:
  "delete_env world0 session0 ''missing'' = (Return (), session0)"
  by (simp add: delete_env_def world0_def session0_def)

section \<open>Creating a Linux environment: the credential\<close>

text \<open>
  Claim C2. In every call of \<^verbatim>\<open>create_linux_env\<close> on a session that yields an engine
  name, the request handed to the create call has, as the credential of its primary
  user, a \<^verbatim>\<open>SystemKeyCredential\<close> when \<^verbatim>\<open>passwd\<close> is \<^verbatim>\<open>None\<close>, and otherwise
  a \<^verbatim>\<open>PasswordCredential\<close> whose password is \<^verbatim>\<open>passwd\<close>.
\<close>

theorem create_linux_env_credential:
  assumes "dlpx_engines_keys_0 s = Return engine_name"
  shows "\<exists>p. issued (snd (create_linux_env w s env_name host_user ip_addr toolkit_path passwd
                  ase_user ase_pw)) = issued s @ [environment_create p]
           \<and> Option.bind (primary_user p) u_credential =
               Some (case passwd of
                       None \<Rightarrow> \<lparr>c_class = SystemKeyCredential, c_password = None\<rparr>
                     | Some pw \<Rightarrow> \<lparr>c_class = PasswordCredential, c_password = Some pw\<rparr>)"
  using create_linux_env_issued [OF assms linux_env_params_value] by simp

theorem create_linux_env_credential_witness:
  "dlpx_engines_keys_0 session0 = Return ''engine1''
   \<and> (\<exists>p. issued (snd (create_linux_env world0 session0 ''test1'' ''delphix'' ''182.1.1.1''
                  (Some ''/var/opt/delphix'') (Some ''secret'') None None))
              = issued session0 @ [environment_create p]
           \<and> Option.bind (primary_user p) u_credential =
               Some \<lparr>c_class = PasswordCredential, c_password = Some ''secret''\<rparr>)
   \<and> (\<exists>p. issued (snd (create_linux_env world0 session0 ''test1'' ''delphix'' ''182.1.1.1''
                  (Some ''/var/opt/delphix'') None None None))
              = issued session0 @ [environment_create p]
           \<and> Option.bind (primary_user p) u_credential =
               Some \<lparr>c_class = SystemKeyCredential, c_password = None\<rparr>)"
proof -
  have h: "dlpx_engines_keys_0 session0 = Return ''engine1''"
    by (simp add: session0_def)
  show ?thesis
    using h
      create_linux_env_credential [OF h, of world0 "''test1''" "''delphix''" "''182.1.1.1''"
        "Some ''/var/opt/delphix''" "Some ''secret''" None None]
      create_linux_env_credential [OF h, of world0 "''test1''" "''delphix''" "''182.1.1.1''"
        "Some ''/var/opt/delphix''" None None None]
    by simp
qed

section \<open>Creating a Windows environment: the connector\<close>

text \<open>
  Claim C3. In every call of \<^verbatim>\<open>create_windows_env\<close> on a session that yields an
  engine name: when \<^verbatim>\<open>connector_name\<close> is \<^verbatim>\<open>None\<close> the function raises
  \<^verbatim>\<open>DlpxObjectNotFound\<close> and the session, with its list of issued calls, is as
  before; when \<^verbatim>\<open>connector_name\<close> resolves to an environment with a host, the
  request handed to the create call has that host as the proxy of its
  \<^verbatim>\<open>host_environment\<close>.
\<close>

theorem create_windows_env_connector:
  assumes "dlpx_engines_keys_0 s = Return engine_name"
  shows "(connector_name = None \<longrightarrow>
            create_windows_env w s env_name host_user ip_addr passwd connector_name
              = (Raise (DlpxObjectNotFound ''Host was not found in the Engine: None''), s))
       \<and> (\<forall>c env_obj h. connector_name = Some c \<and> c \<noteq> []
             \<and> find_obj_by_name_environment w c = Return (Some env_obj) \<and> e_host env_obj = Some h
           \<longrightarrow> (\<exists>p. issued (snd (create_windows_env w s env_name host_user ip_addr passwd
                                   connector_name)) = issued s @ [environment_create p]
                  \<and> Option.bind (host_environment p) he_proxy = Some h))"
  using assms
  by (auto simp: create_windows_env_def connector_lookup_def host_not_found_def str_opt_def
      invoke_def Let_def on_host_environment_def windows_env_params_value split: result.splits)

theorem create_windows_env_connector_witness:
  "dlpx_engines_keys_0 session0 = Return ''engine1''
   \<and> create_windows_env world0 session0 ''WINSRC'' ''administrator'' ''10.0.1.50''
         (Some ''secret'') None
       = (Raise (DlpxObjectNotFound ''Host was not found in the Engine: None''), session0)
   \<and> (\<exists>p. issued (snd (create_windows_env world0 session0 ''WINSRC'' ''administrator''
                  ''10.0.1.50'' (Some ''secret'') (Some ''SOURCE''))) = [environment_create p]
           \<and> Option.bind (host_environment p) he_proxy = Some ''UNIX_HOST-1'')"
proof -
  have h: "dlpx_engines_keys_0 session0 = Return ''engine1''"
    by (simp add: session0_def)
  have r: "find_obj_by_name_environment world0 ''SOURCE'' = Return (Some env_source)"
    by (simp add: world0_def)
  have e: "e_host env_source = Some ''UNIX_HOST-1''"
    by (simp add: env_source_def)
  have i: "issued session0 = []"
    by (simp add: session0_def)
  show ?thesis
    using h r e i
      create_windows_env_connector [OF h, of None world0 "''WINSRC''" "''administrator''"
        "''10.0.1.50''" "Some ''secret''"]
      create_windows_env_connector [OF h, of "Some ''SOURCE''" world0 "''WINSRC''"
        "''administrator''" "''10.0.1.50''" "Some ''secret''"]
    by simp
qed

section \<open>Refreshing every environment\<close>

lemma refresh_all_caught:
  assumes "\<forall>h r err. engine w h (environment_refresh r) = Raise err \<longrightarrow> dlpx_or_request w err"
  shows "fst (refresh_all w engine_name env_list s) = Return ()
       \<and> issued (snd (refresh_all w engine_name env_list s))
           = issued s @ map (\<lambda>e. environment_refresh (e_reference e)) env_list"
proof (induction env_list arbitrary: s)
  case Nil
  show ?case by simp
next
  case (Cons env_obj env_list)
  show ?case
  proof (cases "engine w (issued s) (environment_refresh (e_reference env_obj))")
    case (Return j)
    then show ?thesis using Cons.IH by (simp add: invoke_def)
  next
    case (Raise err)
    with assms have "dlpx_or_request w err" by blast
    with Raise show ?thesis using Cons.IH by (simp add: invoke_def)
  qed
qed

text \<open>
  Claim C4, as stated: \<^verbatim>\<open>refresh_env("all")\<close> issues one refresh call per
  environment, a failed refresh does not abort the others, and the failures are
  aggregated. It fails twice. When the refresh of \<open>SOURCE\<close> raises
  \<^verbatim>\<open>HttpError\<close>, the exception leaves the loop and \<open>TARGET\<close> is never refreshed.
  When both refreshes raise \<^verbatim>\<open>RequestError\<close>, the function returns and the session
  differs from the initial one by the two issued calls only: no failure is kept.
\<close>

theorem refresh_env_all_counterexample:
  "fst (refresh_env (world_source_failing (HttpError ''boom'')) session0 ''all'')
     = Raise (HttpError ''boom'')
   \<and> issued (snd (refresh_env (world_source_failing (HttpError ''boom'')) session0 ''all''))
       = [environment_refresh ''UNIX_HOST_ENVIRONMENT-1'']
   \<and> refresh_env (world_failing (RequestError ''boom'')) session0 ''all''
       = (Return (), session0\<lparr>issued := [environment_refresh ''UNIX_HOST_ENVIRONMENT-1'',
                                          environment_refresh ''UNIX_HOST_ENVIRONMENT-2'']\<rparr>)"
  by (simp add: refresh_env_def session0_def world_source_failing_def world_failing_def world0_def
      dlpx_or_request_def invoke_def env_source_def env_target_def)

text \<open>
  Claim C4, amended. On a session that yields an engine name, when every refresh
  either succeeds or raises a \<^verbatim>\<open>DlpxException\<close> or a \<^verbatim>\<open>RequestError\<close>,
  \<^verbatim>\<open>refresh_env("all")\<close> issues exactly one refresh call for each environment that
  \<^verbatim>\<open>find_all_objects\<close> gave, in that order: a failed refresh does not abort the
  remaining ones.
\<close>

theorem refresh_env_all_one_call_each:
  assumes "dlpx_engines_keys_0 s = Return engine_name"
      and "find_all_objects_environment w = Return env_list"
      and "\<forall>h r err. engine w h (environment_refresh r) = Raise err \<longrightarrow> dlpx_or_request w err"
  shows "issued (snd (refresh_env w s ''all''))
           = issued s @ map (\<lambda>e. environment_refresh (e_reference e)) env_list"
  using assms(1,2) refresh_all_caught [OF assms(3)] by (simp add: refresh_env_def)

theorem refresh_env_all_witness:
  "dlpx_engines_keys_0 session0 = Return ''engine1''
   \<and> find_all_objects_environment (world_source_failing (RequestError ''boom''))
       = Return [env_source, env_target]
   \<and> engine (world_source_failing (RequestError ''boom'')) []
        (environment_refresh ''UNIX_HOST_ENVIRONMENT-1'') = Raise (RequestError ''boom'')
   \<and> issued (snd (refresh_env (world_source_failing (RequestError ''boom'')) session0 ''all''))
       = [environment_refresh ''UNIX_HOST_ENVIRONMENT-1'',
          environment_refresh ''UNIX_HOST_ENVIRONMENT-2'']"
proof -
  have k: "dlpx_engines_keys_0 session0 = Return ''engine1''"
    by (simp add: session0_def)
  have a: "find_all_objects_environment (world_source_failing (RequestError ''boom''))
             = Return [env_source, env_target]"
    by (simp add: world_source_failing_def world0_def)
  have e: "\<forall>h r err. engine (world_source_failing (RequestError ''boom'')) h
                        (environment_refresh r) = Raise err
             \<longrightarrow> dlpx_or_request (world_source_failing (RequestError ''boom'')) err"
    by (simp add: world_source_failing_def dlpx_or_request_def)
  have f: "engine (world_source_failing (RequestError ''boom'')) []
             (environment_refresh ''UNIX_HOST_ENVIRONMENT-1'') = Raise (RequestError ''boom'')"
    by (simp add: world_source_failing_def)
  show ?thesis
    using k a f refresh_env_all_one_call_each [OF k a e]
    by (simp add: session0_def env_source_def env_target_def)
qed

section \<open>Updating a host address\<close>

text \<open>
  Claim C5. In every call of \<^verbatim>\<open>update_host_address\<close> where the old address
  resolves to a host, the object handed to the update call is a \<^verbatim>\<open>WindowsHost\<close>
  when the type of the resolved host is \<^verbatim>\<open>'WindowsHost'\<close> and a \<^verbatim>\<open>UnixHost\<close>
  otherwise; its address is the new address and no other attribute is set.
\<close>

theorem update_host_address_object:
  assumes "find_obj_by_name_host w old_host_address = Return (Some old_host_obj)"
  shows "issued (snd (update_host_address w s old_host_address new_host_address)) =
           issued s @ [host_update (ho_reference old_host_obj)
             \<lparr>h_class = (if ho_type old_host_obj = ''WindowsHost'' then WindowsHost else UnixHost),
              h_address = Some new_host_address, h_name = None, h_toolkit_path = None,
              h_connector_port = None\<rparr>]"
  using assms
  by (simp add: update_host_address_def invoke_def Let_def new_Host_def split: result.splits)

theorem update_host_address_object_witness:
  "find_obj_by_name_host world0 ''10.0.1.50'' = Return (Some host_windows)
   \<and> issued (snd (update_host_address world0 session0 ''10.0.1.50'' ''10.0.1.51'')) =
       [host_update ''WINDOWS_HOST-3''
          \<lparr>h_class = WindowsHost, h_address = Some ''10.0.1.51'', h_name = None,
           h_toolkit_path = None, h_connector_port = None\<rparr>]
   \<and> find_obj_by_name_host world0 ''10.0.1.20'' = Return (Some host_unix)
   \<and> issued (snd (update_host_address world0 session0 ''10.0.1.20'' ''10.0.1.21'')) =
       [host_update ''UNIX_HOST-1''
          \<lparr>h_class = UnixHost, h_address = Some ''10.0.1.21'', h_name = None,
           h_toolkit_path = None, h_connector_port = None\<rparr>]"
proof -
  have a: "find_obj_by_name_host world0 ''10.0.1.50'' = Return (Some host_windows)"
    by (simp add: world0_def)
  have b: "find_obj_by_name_host world0 ''10.0.1.20'' = Return (Some host_unix)"
    by (simp add: world0_def)
  show ?thesis
    using a b
      update_host_address_object [OF a, of session0 "''10.0.1.51''"]
      update_host_address_object [OF b, of session0 "''10.0.1.21''"]
    by (simp add: session0_def host_windows_def host_unix_def)
qed

section \<open>Exit codes\<close>

text \<open>
  The loop of \<^verbatim>\<open>main_workflow\<close>: its first round, and what follows once
  \<^verbatim>\<open>thingstodo\<close> is empty. It ends when the job mapping is empty and runs for
  ever when it is not.
\<close>

lemma workflow_while_first:
  "workflow_while round [t] s =
     (case round s of
        Untyped \<Rightarrow> Some Untyped
      | Typed (Raise err, s') \<Rightarrow> Some (Typed (Raise err, s'))
      | Typed (Return u, s') \<Rightarrow> workflow_while round [] s')"
  by (subst workflow_while.simps) (simp split: typed.splits prod.splits result.splits)

lemma workflow_while_done:
  "jobs s = Map.empty \<Longrightarrow> workflow_while round [] s = Some (Typed (Return (), s))"
  by (subst workflow_while.simps) simp

lemma workflow_while_ends:
  assumes "workflow_while round thingstodo s = Some r" and "thingstodo = []"
  shows "jobs s = Map.empty"
  using assms
  by (induction rule: workflow_while.raw_induct [rotated 1, consumes 1])
     (auto split: if_splits)

lemma workflow_while_spins:
  "jobs s \<noteq> Map.empty \<Longrightarrow> workflow_while round [] s = None"
  using workflow_while_ends [of round "[]" s] by (cases "workflow_while round [] s") auto

text \<open>
  Claim C6, as stated: when the workflow raises a Delphix exception or an HTTP error the
  process exits with code 2, when a job fails with code 3, on \<^verbatim>\<open>SystemExit\<close> with
  the propagated code, and on normal completion with code 0. It fails for the command
  line \<^verbatim>\<open>--type linux --env_name test1 --host_user delphix --ip 182.1.1.1
  --toolkit /var/opt/delphix\<close> on an engine whose create call raises
  \<^verbatim>\<open>HttpError\<close>. The \<^verbatim>\<open>DlpxException\<close> that \<^verbatim>\<open>create_linux_env\<close> raises is
  caught by the handler of \<^verbatim>\<open>main_workflow\<close>, which logs it and returns: it
  reaches no handler of \<^verbatim>\<open>main\<close>. And \<^verbatim>\<open>main\<close> itself, with every
  collaborator returning, raises \<^verbatim>\<open>KeyError\<close> when it reads
  \<^verbatim>\<open>ARGUMENTS['--single_thread']\<close>, a key that the usage text does not have: the
  process ends by an uncaught exception, with neither code 2 nor code 0.
\<close>

theorem main_exit_codes_counterexample:
  "main_workflow (world_failing (HttpError ''boom'')) lib0 ARGUMENTS_create_linux engine0
     session0 (ArgBool False)
     = Some (Typed (Return (),
         session0\<lparr>issued := [environment_create request_test1],
                  logged := [''Error in dx_environment: landsharkengine'' @ [CHR 0x0A]
                     @ ''ERROR: Encountered an exception while creating the environment:''
                     @ [CHR 0x0A] @ ''boom'']\<rparr>))
   \<and> main (script_ok ARGUMENTS_create_linux)
       = Raise (KeyError ([CHR 0x27] @ ''--single_thread'' @ [CHR 0x27]))
   \<and> interpreter_end (main (script_ok ARGUMENTS_create_linux))
       = Uncaught (KeyError ([CHR 0x27] @ ''--single_thread'' @ [CHR 0x27]))"
proof -
  have auth: "workflow_authenticate (world_failing (HttpError ''boom'')) lib0
                ARGUMENTS_create_linux engine0 session0 = (Return (), session0)"
    by (simp add: workflow_authenticate_def getitem_def engine0_def lib0_def)
  have act: "workflow_action (world_failing (HttpError ''boom'')) ARGUMENTS_create_linux session0
      = Typed (Raise (DlpxException
                 (''ERROR: Encountered an exception while creating the environment:''
                  @ [CHR 0x0A] @ ''boom'')),
               session0\<lparr>issued := [environment_create request_test1]\<rparr>)"
    by (simp add: workflow_action_def item_def getitem_def ARGUMENTS_create_linux_def
        ARGUMENTS_of_def ARGUMENTS_defaults_def create_linux_env_def linux_env_params_value
        invoke_def world_failing_def world0_def session0_def dlpx_or_request_or_http_def
        create_failed_def request_test1_def truthy_def)
  have jm: "job_mode_answer lib0 (ArgBool False) = Return ()"
    by (simp add: lib0_def)
  have hn: "getitem engine0 ''hostname'' = Return ''landsharkengine''"
    by (simp add: getitem_def engine0_def)
  have lg: "logged session0 = []"
    by (simp add: session0_def)
  have wf: "main_workflow (world_failing (HttpError ''boom'')) lib0 ARGUMENTS_create_linux engine0
     session0 (ArgBool False)
     = Some (Typed (Return (),
         session0\<lparr>issued := [environment_create request_test1],
                  logged := [''Error in dx_environment: landsharkengine'' @ [CHR 0x0A]
                     @ ''ERROR: Encountered an exception while creating the environment:''
                     @ [CHR 0x0A] @ ''boom'']\<rparr>))"
    by (simp add: main_workflow_def auth jm workflow_while_first workflow_round_def act
        workflow_caught_def hn lg)
  have m: "main (script_ok ARGUMENTS_create_linux)
       = Raise (KeyError ([CHR 0x27] @ ''--single_thread'' @ [CHR 0x27]))"
    by (simp add: main_def main_try_def and_then_def subscript_def getitem_def script_ok_def
        ARGUMENTS_create_linux_def ARGUMENTS_of_def ARGUMENTS_defaults_def)
  show ?thesis
    by (simp add: wf m)
qed

text \<open>
  Claim C6, amended. For every run of \<^verbatim>\<open>main\<close>: when the guarded block of
  \<^verbatim>\<open>main\<close> raises a \<^verbatim>\<open>DlpxException\<close> or an \<^verbatim>\<open>HttpError\<close> the process
  exits with code 2; when it raises a \<^verbatim>\<open>JobError\<close> the process exits with code 3;
  when it raises \<^verbatim>\<open>SystemExit\<close>, \<^verbatim>\<open>main\<close> raises that exception again and the
  process exits with the status of its code. An exception of the classes
  \<^verbatim>\<open>DlpxException\<close>, \<^verbatim>\<open>RequestError\<close>, \<^verbatim>\<open>JobError\<close> or \<^verbatim>\<open>HttpError\<close>
  that the action function or \<^verbatim>\<open>find_job_state\<close> raises in the round of
  \<^verbatim>\<open>main_workflow\<close> does not leave \<^verbatim>\<open>main_workflow\<close>: it is logged and the
  function returns.
\<close>

theorem main_exit_codes:
  "(\<forall>err. main_try m = Raise err \<and>
          (isinstance_DlpxException (not_found_is_dlpx m) err \<or> isinstance_HttpError err)
        \<longrightarrow> interpreter_end (main m) = Exit 2)
   \<and> (\<forall>err. main_try m = Raise err \<and> isinstance_JobError err \<longrightarrow> interpreter_end (main m) = Exit 3)
   \<and> (\<forall>a. main_try m = Raise (SystemExit a)
        \<longrightarrow> main m = Raise (SystemExit a) \<and> interpreter_end (main m) = Exit (exit_status a))
   \<and> (\<forall>s0 err s' hostname.
         workflow_authenticate w lib args engine_dict s = (Return (), s0)
         \<and> job_mode_answer lib single_thread = Return ()
         \<and> workflow_round w lib args s0 = Typed (Raise err, s')
         \<and> workflow_caught w err
         \<and> engine_dict ''hostname'' = Some hostname
        \<longrightarrow> main_workflow w lib args engine_dict s single_thread
              = Some (Typed (Return (),
                   s'\<lparr>logged := logged s' @
                       [''Error in dx_environment: '' @ hostname @ [CHR 0x0A] @ str_exn err]\<rparr>)))"
proof (intro conjI allI impI)
  fix err
  assume "main_try m = Raise err \<and>
          (isinstance_DlpxException (not_found_is_dlpx m) err \<or> isinstance_HttpError err)"
  then show "interpreter_end (main m) = Exit 2"
    by (cases err) (auto simp: main_def exit_status_def)
next
  fix err
  assume "main_try m = Raise err \<and> isinstance_JobError err"
  then show "interpreter_end (main m) = Exit 3"
    by (cases err) (auto simp: main_def exit_status_def)
next
  fix a
  assume "main_try m = Raise (SystemExit a)"
  then show "main m = Raise (SystemExit a)"
    by (simp add: main_def)
next
  fix a
  assume "main_try m = Raise (SystemExit a)"
  then show "interpreter_end (main m) = Exit (exit_status a)"
    by (simp add: main_def)
next
  fix s0 err s' hostname
  assume "workflow_authenticate w lib args engine_dict s = (Return (), s0)
         \<and> job_mode_answer lib single_thread = Return ()
         \<and> workflow_round w lib args s0 = Typed (Raise err, s')
         \<and> workflow_caught w err
         \<and> engine_dict ''hostname'' = Some hostname"
  then show "main_workflow w lib args engine_dict s single_thread
              = Some (Typed (Return (),
                   s'\<lparr>logged := logged s' @
                       [''Error in dx_environment: '' @ hostname @ [CHR 0x0A] @ str_exn err]\<rparr>))"
    by (simp add: main_workflow_def workflow_while_first getitem_def)
qed

theorem main_exit_codes_witness:
  "interpreter_end (main ((script_ok ARGUMENTS_create_linux)
      \<lparr>GetSession_answer := Raise (DlpxException ''no session'')\<rparr>)) = Exit 2
   \<and> interpreter_end (main ((script_ok ARGUMENTS_create_linux)
      \<lparr>logging_est_answer := (\<lambda>a. Raise (HttpError ''401''))\<rparr>)) = Exit 2
   \<and> interpreter_end (main ((script_ok ARGUMENTS_create_linux)
      \<lparr>GetSession_answer := Raise (JobError ''JOB-7'')\<rparr>)) = Exit 3
   \<and> interpreter_end (main ((script_ok ARGUMENTS_create_linux)
      \<lparr>GetSession_answer := Raise (SystemExit (ExitInt 5))\<rparr>)) = Exit 5
   \<and> interpreter_end (main ((script_ok ARGUMENTS_create_linux)
      \<lparr>GetSession_answer := Raise (SystemExit (ExitInt 256))\<rparr>)) = Exit 0
   \<and> main_workflow (world_failing (HttpError ''boom'')) lib0 ARGUMENTS_create_linux engine0
       session0 (ArgBool False)
       = Some (Typed (Return (),
           session0\<lparr>issued := [environment_create request_test1],
                    logged := [''Error in dx_environment: landsharkengine'' @ [CHR 0x0A]
                       @ ''ERROR: Encountered an exception while creating the environment:''
                       @ [CHR 0x0A] @ ''boom'']\<rparr>))"
proof -
  have g: "main_try ((script_ok ARGUMENTS_create_linux)\<lparr>GetSession_answer := Raise err\<rparr>)
             = Raise err" for err
    by (simp add: main_try_def and_then_def script_ok_def)
  have l: "main_try ((script_ok ARGUMENTS_create_linux)
                       \<lparr>logging_est_answer := (\<lambda>a. Raise (HttpError ''401''))\<rparr>)
             = Raise (HttpError ''401'')"
    by (simp add: main_try_def and_then_def subscript_def getitem_def script_ok_def
        ARGUMENTS_create_linux_def ARGUMENTS_of_def ARGUMENTS_defaults_def)
  have auth: "workflow_authenticate (world_failing (HttpError ''boom'')) lib0
                ARGUMENTS_create_linux engine0 session0 = (Return (), session0)"
    by (simp add: workflow_authenticate_def getitem_def engine0_def lib0_def)
  have jm: "job_mode_answer lib0 (ArgBool False) = Return ()"
    by (simp add: lib0_def)
  have round: "workflow_round (world_failing (HttpError ''boom'')) lib0 ARGUMENTS_create_linux
                 session0
      = Typed (Raise (DlpxException
                 (''ERROR: Encountered an exception while creating the environment:''
                  @ [CHR 0x0A] @ ''boom'')),
               session0\<lparr>issued := [environment_create request_test1]\<rparr>)"
    by (simp add: workflow_round_def workflow_action_def item_def getitem_def
        ARGUMENTS_create_linux_def
        ARGUMENTS_of_def ARGUMENTS_defaults_def create_linux_env_def linux_env_params_value
        invoke_def world_failing_def world0_def session0_def dlpx_or_request_or_http_def
        create_failed_def request_test1_def truthy_def)
  have caught: "workflow_caught (world_failing (HttpError ''boom''))
                  (DlpxException (''ERROR: Encountered an exception while creating the environment:''
                  @ [CHR 0x0A] @ ''boom''))"
    by (simp add: workflow_caught_def)
  have hn: "engine0 ''hostname'' = Some ''landsharkengine''"
    by (simp add: engine0_def)
  have lg: "logged session0 = []"
    by (simp add: session0_def)
  note ec = main_exit_codes [where w = "world_failing (HttpError ''boom'')" and lib = lib0
              and args = ARGUMENTS_create_linux and engine_dict = engine0 and s = session0
              and single_thread = "ArgBool False"]
  have wf: "main_workflow (world_failing (HttpError ''boom'')) lib0 ARGUMENTS_create_linux engine0
       session0 (ArgBool False)
       = Some (Typed (Return (),
           session0\<lparr>issued := [environment_create request_test1],
                    logged := [''Error in dx_environment: landsharkengine'' @ [CHR 0x0A]
                       @ ''ERROR: Encountered an exception while creating the environment:''
                       @ [CHR 0x0A] @ ''boom'']\<rparr>))"
    using ec [where m = "script_ok ARGUMENTS_create_linux"] auth jm round caught hn
    by (simp add: lg)
  have e1: "interpreter_end (main ((script_ok ARGUMENTS_create_linux)
      \<lparr>GetSession_answer := Raise (DlpxException ''no session'')\<rparr>)) = Exit 2"
    using ec [where m = "(script_ok ARGUMENTS_create_linux)
                           \<lparr>GetSession_answer := Raise (DlpxException ''no session'')\<rparr>"]
    by (simp add: g)
  have e2: "interpreter_end (main ((script_ok ARGUMENTS_create_linux)
      \<lparr>logging_est_answer := (\<lambda>a. Raise (HttpError ''401''))\<rparr>)) = Exit 2"
    using ec [where m = "(script_ok ARGUMENTS_create_linux)
                           \<lparr>logging_est_answer := (\<lambda>a. Raise (HttpError ''401''))\<rparr>"]
    by (simp add: l)
  have e3: "interpreter_end (main ((script_ok ARGUMENTS_create_linux)
      \<lparr>GetSession_answer := Raise (JobError ''JOB-7'')\<rparr>)) = Exit 3"
    using ec [where m = "(script_ok ARGUMENTS_create_linux)
                           \<lparr>GetSession_answer := Raise (JobError ''JOB-7'')\<rparr>"]
    by (simp add: g)
  have e4: "interpreter_end (main ((script_ok ARGUMENTS_create_linux)
      \<lparr>GetSession_answer := Raise (SystemExit (ExitInt 5))\<rparr>)) = Exit 5"
    using ec [where m = "(script_ok ARGUMENTS_create_linux)
                           \<lparr>GetSession_answer := Raise (SystemExit (ExitInt 5))\<rparr>"]
    by (simp add: g exit_status_def)
  have e5: "interpreter_end (main ((script_ok ARGUMENTS_create_linux)
      \<lparr>GetSession_answer := Raise (SystemExit (ExitInt 256))\<rparr>)) = Exit 0"
    using ec [where m = "(script_ok ARGUMENTS_create_linux)
                           \<lparr>GetSession_answer := Raise (SystemExit (ExitInt 256))\<rparr>"]
    by (simp add: g exit_status_def)
  show ?thesis
    using e1 e2 e3 e4 e5 wf by blast
qed

section \<open>What the action functions do when the vendor call fails\<close>

text \<open>
  Claim C7, as stated: on every failing vendor call \<^verbatim>\<open>enable_environment\<close>,
  \<^verbatim>\<open>disable_environment\<close> and \<^verbatim>\<open>list_env\<close> log the exception and return, while
  \<^verbatim>\<open>create_linux_env\<close>, \<^verbatim>\<open>create_windows_env\<close> and \<^verbatim>\<open>refresh_env\<close> raise a
  \<^verbatim>\<open>DlpxException\<close> that wraps it. It fails: \<^verbatim>\<open>list_env\<close> has no handler for
  its vendor call, so a \<^verbatim>\<open>RequestError\<close> of \<^verbatim>\<open>environment.get_all\<close> propagates
  and nothing is logged; the handler of \<^verbatim>\<open>enable_environment\<close> does not name
  \<^verbatim>\<open>HttpError\<close>, which propagates; the handler of \<^verbatim>\<open>create_windows_env\<close> does
  not name \<^verbatim>\<open>JobError\<close>, which propagates as it is; and
  \<^verbatim>\<open>refresh_env("all")\<close> returns when its refreshes raise \<^verbatim>\<open>RequestError\<close>.
\<close>

theorem action_failure_policy_counterexample:
  "list_env (world_failing (RequestError ''boom'')) session0
     = (Raise (RequestError ''boom''), session0\<lparr>issued := [environment_get_all]\<rparr>)
   \<and> enable_environment (world_failing (HttpError ''boom'')) session0 ''SOURCE''
     = (Raise (HttpError ''boom''),
        session0\<lparr>issued := [environment_enable ''UNIX_HOST_ENVIRONMENT-1'']\<rparr>)
   \<and> fst (create_windows_env (world_failing (JobError ''boom'')) session0 ''WINSRC''
            ''administrator'' ''10.0.1.50'' (Some ''secret'') (Some ''SOURCE''))
     = Raise (JobError ''boom'')
   \<and> fst (refresh_env (world_failing (RequestError ''boom'')) session0 ''all'') = Return ()"
  by (simp add: list_env_def enable_environment_def create_windows_env_def refresh_env_def
      connector_lookup_def Let_def invoke_def world_failing_def world0_def session0_def
      env_source_def env_target_def dlpx_or_request_def dlpx_or_request_or_http_def)

text \<open>
  Claim C7, amended. Let the vendor call fail with \<open>err\<close>, on a session that yields an
  engine name and for a name that resolves to an environment. When \<open>err\<close> is a
  \<^verbatim>\<open>DlpxException\<close> or a \<^verbatim>\<open>RequestError\<close>, \<^verbatim>\<open>enable_environment\<close> and
  \<^verbatim>\<open>disable_environment\<close> log it and return, and \<^verbatim>\<open>refresh_env\<close> with a name
  other than \<^verbatim>\<open>"all"\<close> raises a \<^verbatim>\<open>DlpxException\<close> that wraps it. When \<open>err\<close> is
  one of these or an \<^verbatim>\<open>HttpError\<close>, \<^verbatim>\<open>create_linux_env\<close> and
  \<^verbatim>\<open>create_windows_env\<close> raise a \<^verbatim>\<open>DlpxException\<close> that wraps it; when it is a
  \<^verbatim>\<open>JobError\<close>, \<^verbatim>\<open>create_linux_env\<close> does so too. \<^verbatim>\<open>list_env\<close> lets \<open>err\<close>
  propagate and logs nothing.
\<close>

theorem action_failure_policy:
  assumes "dlpx_engines_keys_0 s = Return engine_name"
      and "find_obj_by_name_environment w env_name = Return (Some env_obj)"
      and "e_host env_obj = Some h"
      and "env_name \<noteq> []"
      and "env_name \<noteq> ''all''"
      and "\<forall>c. engine w (issued s) c = Raise err"
      and "get_all_answer w (issued s) = Raise err"
  shows "(dlpx_or_request w err \<longrightarrow>
            fst (enable_environment w s env_name) = Return ()
          \<and> logged (snd (enable_environment w s env_name)) =
              logged s @ [''ERROR: Enabling the host '' @ env_name @ '' encountered an error:''
                          @ [CHR 0x0A] @ str_exn err]
          \<and> fst (disable_environment w s env_name) = Return ()
          \<and> logged (snd (disable_environment w s env_name)) =
              logged s @ [''ERROR: Disabling the host '' @ env_name @ '' encountered an error:''
                          @ [CHR 0x0A] @ str_exn err]
          \<and> fst (refresh_env w s env_name) =
              Raise (DlpxException (''Refreshing '' @ env_name @ '' encountered an error:''
                                    @ [CHR 0x0A] @ str_exn err)))
       \<and> (dlpx_or_request_or_http w err \<longrightarrow>
            fst (create_linux_env w s new_name host_user ip_addr toolkit_path passwd ase_user ase_pw)
              = Raise (DlpxException
                         (''ERROR: Encountered an exception while creating the environment:''
                          @ [CHR 0x0A] @ str_exn err))
          \<and> fst (create_windows_env w s new_name host_user ip_addr passwd (Some env_name))
              = Raise (DlpxException
                         (''ERROR: Encountered an exception while creating the environment:''
                          @ [CHR 0x0A] @ str_exn err)))
       \<and> (isinstance_JobError err \<longrightarrow>
            fst (create_linux_env w s new_name host_user ip_addr toolkit_path passwd ase_user ase_pw)
              = Raise (DlpxException (''JobError while creating environment:''
                                      @ [CHR 0x0A] @ str_exn err)))
       \<and> fst (list_env w s) = Raise err
       \<and> logged (snd (list_env w s)) = logged s"
proof -
  have inv: "invoke w c s = (Raise err, s\<lparr>issued := issued s @ [c]\<rparr>)" for c
    using assms(6) by (simp add: invoke_def)
  have job: "isinstance_JobError err \<Longrightarrow> \<not> dlpx_or_request_or_http w err"
    by (cases err) (simp_all add: dlpx_or_request_or_http_def)
  have en: "dlpx_or_request w err \<Longrightarrow>
      fst (enable_environment w s env_name) = Return ()
      \<and> logged (snd (enable_environment w s env_name)) =
              logged s @ [''ERROR: Enabling the host '' @ env_name @ '' encountered an error:''
                          @ [CHR 0x0A] @ str_exn err]"
    using assms(2) by (simp add: enable_environment_def inv)
  have dis: "dlpx_or_request w err \<Longrightarrow>
      fst (disable_environment w s env_name) = Return ()
      \<and> logged (snd (disable_environment w s env_name)) =
              logged s @ [''ERROR: Disabling the host '' @ env_name @ '' encountered an error:''
                          @ [CHR 0x0A] @ str_exn err]"
    using assms(2) by (simp add: disable_environment_def inv)
  have re: "dlpx_or_request w err \<Longrightarrow>
      fst (refresh_env w s env_name) =
              Raise (DlpxException (''Refreshing '' @ env_name @ '' encountered an error:''
                                    @ [CHR 0x0A] @ str_exn err))"
    using assms(1,2,5) by (simp add: refresh_env_def refresh_named_def inv)
  have lin: "dlpx_or_request_or_http w err \<Longrightarrow>
      fst (create_linux_env w s new_name host_user ip_addr toolkit_path passwd ase_user ase_pw)
              = Raise (DlpxException
                         (''ERROR: Encountered an exception while creating the environment:''
                          @ [CHR 0x0A] @ str_exn err))"
    using assms(1)
    by (simp add: create_linux_env_def linux_env_params_value inv create_failed_def)
  have win: "dlpx_or_request_or_http w err \<Longrightarrow>
      fst (create_windows_env w s new_name host_user ip_addr passwd (Some env_name))
              = Raise (DlpxException
                         (''ERROR: Encountered an exception while creating the environment:''
                          @ [CHR 0x0A] @ str_exn err))"
    using assms(1,2,3,4)
    by (simp add: create_windows_env_def connector_lookup_def Let_def inv create_failed_def)
  have linj: "isinstance_JobError err \<Longrightarrow>
      fst (create_linux_env w s new_name host_user ip_addr toolkit_path passwd ase_user ase_pw)
              = Raise (DlpxException (''JobError while creating environment:''
                                      @ [CHR 0x0A] @ str_exn err))"
    using assms(1) job
    by (simp add: create_linux_env_def linux_env_params_value inv create_job_failed_def)
  have li: "fst (list_env w s) = Raise err \<and> logged (snd (list_env w s)) = logged s"
    using assms(7) by (simp add: list_env_def Let_def)
  show ?thesis using en dis re lin win linj li by blast
qed

theorem action_failure_policy_witness:
  "fst (enable_environment (world_failing (RequestError ''boom'')) session0 ''SOURCE'') = Return ()
   \<and> logged (snd (enable_environment (world_failing (RequestError ''boom'')) session0 ''SOURCE''))
       = [''ERROR: Enabling the host SOURCE encountered an error:'' @ [CHR 0x0A] @ ''boom'']
   \<and> fst (disable_environment (world_failing (RequestError ''boom'')) session0 ''SOURCE'')
       = Return ()
   \<and> logged (snd (disable_environment (world_failing (RequestError ''boom'')) session0 ''SOURCE''))
       = [''ERROR: Disabling the host SOURCE encountered an error:'' @ [CHR 0x0A] @ ''boom'']
   \<and> fst (refresh_env (world_failing (RequestError ''boom'')) session0 ''SOURCE'')
       = Raise (DlpxException (''Refreshing SOURCE encountered an error:'' @ [CHR 0x0A] @ ''boom''))
   \<and> fst (create_linux_env (world_failing (RequestError ''boom'')) session0 ''test1'' ''delphix''
            ''182.1.1.1'' (Some ''/var/opt/delphix'') None None None)
       = Raise (DlpxException (''ERROR: Encountered an exception while creating the environment:''
                               @ [CHR 0x0A] @ ''boom''))
   \<and> fst (create_windows_env (world_failing (RequestError ''boom'')) session0 ''test1'' ''delphix''
            ''182.1.1.1'' None (Some ''SOURCE''))
       = Raise (DlpxException (''ERROR: Encountered an exception while creating the environment:''
                               @ [CHR 0x0A] @ ''boom''))
   \<and> fst (create_linux_env (world_failing (JobError ''boom'')) session0 ''test1'' ''delphix''
            ''182.1.1.1'' (Some ''/var/opt/delphix'') None None None)
       = Raise (DlpxException (''JobError while creating environment:'' @ [CHR 0x0A] @ ''boom''))
   \<and> fst (list_env (world_failing (RequestError ''boom'')) session0) = Raise (RequestError ''boom'')
   \<and> logged (snd (list_env (world_failing (RequestError ''boom'')) session0)) = []"
proof -
  have k: "dlpx_engines_keys_0 session0 = Return ''engine1''"
    by (simp add: session0_def)
  have f: "find_obj_by_name_environment (world_failing err) ''SOURCE'' = Return (Some env_source)"
    for err
    by (simp add: world_failing_def world0_def)
  have h: "e_host env_source = Some ''UNIX_HOST-1''"
    by (simp add: env_source_def)
  have n: "''SOURCE'' \<noteq> []" "''SOURCE'' \<noteq> ''all''"
    by simp_all
  have e: "\<forall>c. engine (world_failing err) (issued session0) c = Raise err" for err
    by (simp add: world_failing_def)
  have g: "get_all_answer (world_failing err) (issued session0) = Raise err" for err
    by (simp add: world_failing_def)
  have l: "logged session0 = []"
    by (simp add: session0_def)
  show ?thesis
    using action_failure_policy [where w = "world_failing (RequestError ''boom'')"
            and err = "RequestError ''boom''" and new_name = "''test1''"
            and host_user = "''delphix''" and ip_addr = "''182.1.1.1''"
            and toolkit_path = "Some ''/var/opt/delphix''" and passwd = None
            and ase_user = None and ase_pw = None, OF k f h n e g]
          action_failure_policy [where w = "world_failing (JobError ''boom'')"
            and err = "JobError ''boom''" and new_name = "''test1''"
            and host_user = "''delphix''" and ip_addr = "''182.1.1.1''"
            and toolkit_path = "Some ''/var/opt/delphix''" and passwd = None
            and ase_user = None and ase_pw = None, OF k f h n e g]
    by (simp add: l dlpx_or_request_def dlpx_or_request_or_http_def)
qed

section \<open>Where the job reference is stored\<close>

lemma list_env_loop_keeps:
  "jobs (snd (list_env_loop w all_envs env_host s)) = jobs s
   \<and> logged (snd (list_env_loop w all_envs env_host s)) = logged s
   \<and> issued (snd (list_env_loop w all_envs env_host s)) = issued s"
  by (induction all_envs arbitrary: env_host s) (auto split: result.splits)

lemma refresh_all_stores:
  "jobs (snd (refresh_all w engine_name env_list s)) =
     (case returned_jobs (refresh_all_answers w (issued s) env_list) of
        [] \<Rightarrow> jobs s
      | k # ks \<Rightarrow> (jobs s)(engine_name \<mapsto> last (k # ks)))"
proof (induction env_list arbitrary: s)
  case Nil
  show ?case by simp
next
  case (Cons env_obj env_list)
  show ?case
  proof (cases "engine w (issued s) (environment_refresh (e_reference env_obj))")
    case (Return j)
    then show ?thesis
      by (auto simp: Cons.IH invoke_def split: list.splits)
  next
    case (Raise err)
    then show ?thesis
      by (auto simp: Cons.IH invoke_def split: list.splits)
  qed
qed

lemma enable_environment_jobs: "jobs (snd (enable_environment w s env_name)) = jobs s"
  by (simp add: enable_environment_def invoke_def split: result.splits option.splits)

lemma disable_environment_jobs: "jobs (snd (disable_environment w s env_name)) = jobs s"
  by (simp add: disable_environment_def invoke_def split: result.splits option.splits)

lemma update_host_address_jobs:
  "jobs (snd (update_host_address w s old_host_address new_host_address)) = jobs s"
  by (simp add: update_host_address_def invoke_def Let_def split: result.splits option.splits)

lemma list_env_jobs: "jobs (snd (list_env w s)) = jobs s"
  by (simp add: list_env_def Let_def list_env_loop_keeps split: result.splits)

text \<open>
  Claim C8, as stated: each of the eight action functions, after its vendor call has
  succeeded, stores the last job of the session in the mapping from engine name to job.
  It fails for \<^verbatim>\<open>enable_environment\<close>: after a successful enable call that made
  \<open>JOB-1\<close> the last job, the mapping still has no entry for the engine.
\<close>

theorem job_capture_counterexample:
  "enable_environment world0 session0 ''SOURCE''
     = (Return (), session0\<lparr>issued := [environment_enable ''UNIX_HOST_ENVIRONMENT-1''],
                            last_job := Some ''JOB-1''\<rparr>)
   \<and> jobs (snd (enable_environment world0 session0 ''SOURCE'')) ''engine1'' = None"
  by (simp add: enable_environment_def invoke_def world0_def session0_def env_source_def)

text \<open>
  Claim C8, amended. On a session that yields an engine name: \<^verbatim>\<open>create_linux_env\<close>,
  \<^verbatim>\<open>create_windows_env\<close>, \<^verbatim>\<open>delete_env\<close> and \<^verbatim>\<open>refresh_env\<close> for one name,
  once their vendor call has succeeded and left \<open>j\<close> as the last job, store \<open>j\<close> under
  the engine name; \<^verbatim>\<open>refresh_env("all")\<close> leaves under the engine name the job of
  the last refresh that succeeded among the refresh calls it makes, and leaves the
  mapping as it was when none succeeded. \<^verbatim>\<open>enable_environment\<close>,
  \<^verbatim>\<open>disable_environment\<close>, \<^verbatim>\<open>update_host_address\<close> and \<^verbatim>\<open>list_env\<close> never
  write the mapping: on every input they leave it as it was.
\<close>

theorem job_capture:
  "(dlpx_engines_keys_0 s = Return engine_name \<longrightarrow>
      ((\<forall>p. engine w (issued s) (environment_create p) = Return j) \<longrightarrow>
         jobs (snd (create_linux_env w s new_name host_user ip_addr toolkit_path passwd
                      ase_user ase_pw)) = (jobs s)(engine_name \<mapsto> j))
    \<and> ((\<forall>p. engine w (issued s) (environment_create p) = Return j)
        \<and> find_obj_by_name_environment w env_name = Return (Some env_obj)
        \<and> e_host env_obj = Some h \<and> env_name \<noteq> [] \<longrightarrow>
         jobs (snd (create_windows_env w s new_name host_user ip_addr passwd (Some env_name)))
           = (jobs s)(engine_name \<mapsto> j))
    \<and> (find_obj_by_name_environment w env_name = Return (Some env_obj)
        \<and> engine w (issued s) (environment_delete (e_reference env_obj)) = Return j \<longrightarrow>
         jobs (snd (delete_env w s env_name)) = (jobs s)(engine_name \<mapsto> j))
    \<and> (find_obj_by_name_environment w env_name = Return (Some env_obj)
        \<and> engine w (issued s) (environment_refresh (e_reference env_obj)) = Return j
        \<and> env_name \<noteq> ''all'' \<longrightarrow>
         jobs (snd (refresh_env w s env_name)) = (jobs s)(engine_name \<mapsto> j))
    \<and> (find_all_objects_environment w = Return env_list \<longrightarrow>
         jobs (snd (refresh_env w s ''all'')) =
           (case returned_jobs (refresh_all_answers w (issued s) env_list) of
              [] \<Rightarrow> jobs s
            | k # ks \<Rightarrow> (jobs s)(engine_name \<mapsto> last (k # ks)))))
   \<and> jobs (snd (enable_environment w s env_name)) = jobs s
   \<and> jobs (snd (disable_environment w s env_name)) = jobs s
   \<and> jobs (snd (update_host_address w s old_host_address new_host_address)) = jobs s
   \<and> jobs (snd (list_env w s)) = jobs s"
proof -
  have lin: "jobs (snd (create_linux_env w s new_name host_user ip_addr toolkit_path passwd
                      ase_user ase_pw)) = (jobs s)(engine_name \<mapsto> j)"
    if "dlpx_engines_keys_0 s = Return engine_name"
      and "\<forall>p. engine w (issued s) (environment_create p) = Return j"
    using that by (simp add: create_linux_env_def linux_env_params_value invoke_def)
  have win: "jobs (snd (create_windows_env w s new_name host_user ip_addr passwd (Some env_name)))
           = (jobs s)(engine_name \<mapsto> j)"
    if "dlpx_engines_keys_0 s = Return engine_name"
      and "\<forall>p. engine w (issued s) (environment_create p) = Return j"
      and "find_obj_by_name_environment w env_name = Return (Some env_obj)"
      and "e_host env_obj = Some h" and "env_name \<noteq> []"
    using that
    by (simp add: create_windows_env_def connector_lookup_def Let_def invoke_def)
  have del: "jobs (snd (delete_env w s env_name)) = (jobs s)(engine_name \<mapsto> j)"
    if "dlpx_engines_keys_0 s = Return engine_name"
      and "find_obj_by_name_environment w env_name = Return (Some env_obj)"
      and "engine w (issued s) (environment_delete (e_reference env_obj)) = Return j"
    using that by (simp add: delete_env_def invoke_def)
  have re: "jobs (snd (refresh_env w s env_name)) = (jobs s)(engine_name \<mapsto> j)"
    if "dlpx_engines_keys_0 s = Return engine_name"
      and "find_obj_by_name_environment w env_name = Return (Some env_obj)"
      and "engine w (issued s) (environment_refresh (e_reference env_obj)) = Return j"
      and "env_name \<noteq> ''all''"
    using that by (simp add: refresh_env_def refresh_named_def invoke_def)
  have rall: "jobs (snd (refresh_env w s ''all'')) =
           (case returned_jobs (refresh_all_answers w (issued s) env_list) of
              [] \<Rightarrow> jobs s
            | k # ks \<Rightarrow> (jobs s)(engine_name \<mapsto> last (k # ks)))"
    if "dlpx_engines_keys_0 s = Return engine_name"
      and "find_all_objects_environment w = Return env_list"
    using that by (simp add: refresh_env_def refresh_all_stores)
  show ?thesis
    using lin win del re rall enable_environment_jobs disable_environment_jobs
      update_host_address_jobs list_env_jobs
    by blast
qed

theorem job_capture_witness:
  "jobs (snd (create_linux_env world0 session0 ''test1'' ''delphix'' ''182.1.1.1''
                (Some ''/var/opt/delphix'') None None None)) = [''engine1'' \<mapsto> Some ''JOB-1'']
   \<and> jobs (snd (create_windows_env world0 session0 ''test1'' ''delphix'' ''182.1.1.1'' None
                  (Some ''SOURCE''))) = [''engine1'' \<mapsto> Some ''JOB-1'']
   \<and> jobs (snd (delete_env world0 session0 ''SOURCE'')) = [''engine1'' \<mapsto> Some ''JOB-1'']
   \<and> jobs (snd (refresh_env world0 session0 ''SOURCE'')) = [''engine1'' \<mapsto> Some ''JOB-1'']
   \<and> jobs (snd (refresh_env world_two_jobs session0 ''all'')) = [''engine1'' \<mapsto> Some ''JOB-2'']
   \<and> jobs (snd (refresh_env (world_target_failing (HttpError ''boom'')) session0 ''all''))
       = [''engine1'' \<mapsto> Some ''JOB-1'']
   \<and> jobs (snd (refresh_env (world_failing (RequestError ''boom'')) session0 ''all''))
       = Map.empty
   \<and> jobs (snd (enable_environment world0 session0 ''SOURCE'')) = Map.empty
   \<and> jobs (snd (disable_environment world0 session0 ''SOURCE'')) = Map.empty
   \<and> jobs (snd (update_host_address world0 session0 ''10.0.1.50'' ''10.0.1.51'')) = Map.empty
   \<and> jobs (snd (list_env world0 session0)) = Map.empty"
proof -
  have k: "dlpx_engines_keys_0 session0 = Return ''engine1''"
    by (simp add: session0_def)
  have j: "jobs session0 = Map.empty" and i: "issued session0 = []"
    by (simp_all add: session0_def)
  have f: "find_obj_by_name_environment world0 ''SOURCE'' = Return (Some env_source)"
    by (simp add: world0_def)
  have h: "e_host env_source = Some ''UNIX_HOST-1''"
    by (simp add: env_source_def)
  have e: "engine world0 hist c = Return (Some ''JOB-1'')" for hist c
    by (simp add: world0_def)
  have a: "find_all_objects_environment world_two_jobs = Return [env_source, env_target]"
          "find_all_objects_environment (world_target_failing err)
             = Return [env_source, env_target]"
          "find_all_objects_environment (world_failing err) = Return [env_source, env_target]"
    for err
    by (simp_all add: world_two_jobs_def world_target_failing_def world_failing_def world0_def)
  have r2: "returned_jobs (refresh_all_answers world_two_jobs [] [env_source, env_target])
              = [Some ''JOB-1'', Some ''JOB-2'']"
    by (simp add: world_two_jobs_def env_source_def env_target_def)
  have r1: "returned_jobs (refresh_all_answers (world_target_failing (HttpError ''boom'')) []
              [env_source, env_target]) = [Some ''JOB-1'']"
    by (simp add: world_target_failing_def env_source_def env_target_def dlpx_or_request_def)
  have r0: "returned_jobs (refresh_all_answers (world_failing (RequestError ''boom'')) []
              [env_source, env_target]) = []"
    by (simp add: world_failing_def dlpx_or_request_def)
  note jc = job_capture [where s = session0 and engine_name = "''engine1''"
            and j = "Some ''JOB-1''" and env_name = "''SOURCE''" and env_obj = env_source
            and h = "''UNIX_HOST-1''" and new_name = "''test1''" and host_user = "''delphix''"
            and ip_addr = "''182.1.1.1''" and toolkit_path = "Some ''/var/opt/delphix''"
            and passwd = None and ase_user = None and ase_pw = None
            and old_host_address = "''10.0.1.50''" and new_host_address = "''10.0.1.51''"
            and env_list = "[env_source, env_target]"]
  show ?thesis
    using jc [where w = world0] jc [where w = world_two_jobs]
          jc [where w = "world_target_failing (HttpError ''boom'')"]
          jc [where w = "world_failing (RequestError ''boom'')"]
    by (simp add: k j i f h e a r2 r1 r0 del: refresh_all_answers.simps)
qed

section \<open>Creating a Linux environment: the host environment and the ASE parameters\<close>

text \<open>
  Claim C9. In every call of \<^verbatim>\<open>create_linux_env\<close> on a session that yields an engine
  name, the request handed to the create call has as \<^verbatim>\<open>host_environment\<close> a fresh
  \<^verbatim>\<open>UnixHostEnvironment\<close> that carries the environment name and, when
  \<^verbatim>\<open>ase_user\<close> is given, the ASE parameters, and nothing else: it has no host. The
  host with the address and the toolkit path, which the first
  \<^verbatim>\<open>host_environment\<close> held, is gone; address and toolkit path remain in the
  \<^verbatim>\<open>host_parameters\<close> dictionary.
\<close>

theorem create_linux_env_host_environment:
  assumes "dlpx_engines_keys_0 s = Return engine_name"
  shows "\<exists>p he. issued (snd (create_linux_env w s env_name host_user ip_addr toolkit_path passwd
                     ase_user ase_pw)) = issued s @ [environment_create p]
           \<and> host_environment p = Some he
           \<and> he = \<lparr>he_class = UnixHostEnvironment, he_name = Some env_name, he_host = None,
                   he_ase_host_environment_parameters =
                     (if truthy ase_user
                      then Some \<lparr>db_user = ase_user,
                                 credentials = Some [(''type'', Some ''PasswordCredential''),
                                                     (''password'', ase_pw)]\<rparr>
                      else None),
                   he_proxy = None\<rparr>
           \<and> host_parameters p =
               Some (Dict [(''host'', [(''address'', Some ip_addr), (''type'', Some ''UnixHost''),
                                       (''name'', Some env_name),
                                       (''toolkitPath'', toolkit_path)])])
           \<and> Option.bind (host_environment
                 (linux_env_params_first env_name host_user ip_addr toolkit_path passwd)) he_host
               = Some \<lparr>h_class = UnixHost, h_address = Some ip_addr, h_name = None,
                       h_toolkit_path = toolkit_path, h_connector_port = None\<rparr>"
  using create_linux_env_issued [OF assms linux_env_params_value]
  by (simp add: linux_env_params_first_value)

theorem create_linux_env_host_environment_witness:
  "dlpx_engines_keys_0 session0 = Return ''engine1''
   \<and> (\<exists>p he. issued (snd (create_linux_env world0 session0 ''test1'' ''delphix'' ''182.1.1.1''
                     (Some ''/var/opt/delphix'') None None None)) = [environment_create p]
           \<and> host_environment p = Some he
           \<and> he = \<lparr>he_class = UnixHostEnvironment, he_name = Some ''test1'', he_host = None,
                   he_ase_host_environment_parameters = None, he_proxy = None\<rparr>
           \<and> host_parameters p =
               Some (Dict [(''host'', [(''address'', Some ''182.1.1.1''),
                                       (''type'', Some ''UnixHost''), (''name'', Some ''test1''),
                                       (''toolkitPath'', Some ''/var/opt/delphix'')])])
           \<and> Option.bind (host_environment
                 (linux_env_params_first ''test1'' ''delphix'' ''182.1.1.1''
                    (Some ''/var/opt/delphix'') None)) he_host
               = Some \<lparr>h_class = UnixHost, h_address = Some ''182.1.1.1'', h_name = None,
                       h_toolkit_path = Some ''/var/opt/delphix'', h_connector_port = None\<rparr>)"
proof -
  have k: "dlpx_engines_keys_0 session0 = Return ''engine1''"
    by (simp add: session0_def)
  have i: "issued session0 = []"
    by (simp add: session0_def)
  show ?thesis
    using k create_linux_env_host_environment [OF k, of world0 "''test1''" "''delphix''"
            "''182.1.1.1''" "Some ''/var/opt/delphix''" None None None]
    by (simp add: i truthy_def)
qed

text \<open>
  Claim C10. In \<^verbatim>\<open>create_linux_env\<close> the handler of \<^verbatim>\<open>KeyError\<close> is never
  entered: for every input the guarded assignments return, the request is built, and
  on a session that yields an engine name the function never raises the
  \<^verbatim>\<open>DlpxException\<close> of that handler. When \<^verbatim>\<open>ase_user\<close> is given and
  \<^verbatim>\<open>ase_pw\<close> is \<^verbatim>\<open>None\<close>, the request handed to the create call carries ASE
  credentials whose password is \<^verbatim>\<open>None\<close>.
\<close>

theorem ase_handler_unreachable:
  "(\<forall>err. linux_env_params env_name host_user ip_addr toolkit_path passwd ase_user ase_pw
            \<noteq> Raise err)
   \<and> (\<forall>he err. ase_assign ase_user ase_pw he \<noteq> Raise err)
   \<and> (dlpx_engines_keys_0 s = Return engine_name \<longrightarrow>
        fst (create_linux_env w s env_name host_user ip_addr toolkit_path passwd ase_user ase_pw)
          \<noteq> Raise ase_required)
   \<and> (dlpx_engines_keys_0 s = Return engine_name \<and> truthy ase_user \<and> ase_pw = None \<longrightarrow>
        (\<exists>p. issued (snd (create_linux_env w s env_name host_user ip_addr toolkit_path passwd
                            ase_user ase_pw)) = issued s @ [environment_create p]
             \<and> Option.bind (host_environment p) he_ase_host_environment_parameters
                 = Some \<lparr>db_user = ase_user,
                         credentials = Some [(''type'', Some ''PasswordCredential''),
                                             (''password'', None)]\<rparr>))"
proof (intro conjI allI impI)
  fix err
  show "linux_env_params env_name host_user ip_addr toolkit_path passwd ase_user ase_pw \<noteq> Raise err"
    by (simp add: linux_env_params_value)
next
  fix he err
  show "ase_assign ase_user ase_pw he \<noteq> Raise err"
    by (simp add: ase_assign_def)
next
  assume e: "dlpx_engines_keys_0 s = Return engine_name"
  show "fst (create_linux_env w s env_name host_user ip_addr toolkit_path passwd ase_user ase_pw)
          \<noteq> Raise ase_required"
  proof -
    obtain p where p: "linux_env_params env_name host_user ip_addr toolkit_path passwd ase_user ase_pw
                         = Return p"
      by (simp add: linux_env_params_value)
    show ?thesis
    proof (cases "engine w (issued s) (environment_create p)")
      case (Return j)
      then show ?thesis using e p by (simp add: create_linux_env_def invoke_def)
    next
      case (Raise err)
      then show ?thesis using e p
        by (cases err)
           (simp_all add: create_linux_env_def invoke_def ase_required_def create_failed_def
              create_job_failed_def dlpx_or_request_or_http_def)
    qed
  qed
next
  assume a: "dlpx_engines_keys_0 s = Return engine_name \<and> truthy ase_user \<and> ase_pw = None"
  then have e: "dlpx_engines_keys_0 s = Return engine_name" by simp
  show "\<exists>p. issued (snd (create_linux_env w s env_name host_user ip_addr toolkit_path passwd
                            ase_user ase_pw)) = issued s @ [environment_create p]
             \<and> Option.bind (host_environment p) he_ase_host_environment_parameters
                 = Some \<lparr>db_user = ase_user,
                         credentials = Some [(''type'', Some ''PasswordCredential''),
                                             (''password'', None)]\<rparr>"
    using a create_linux_env_issued [OF e linux_env_params_value] by simp
qed

theorem ase_handler_unreachable_witness:
  "dlpx_engines_keys_0 session0 = Return ''engine1'' \<and> truthy (Some ''sa'')
   \<and> fst (create_linux_env world0 session0 ''test1'' ''delphix'' ''182.1.1.1''
            (Some ''/var/opt/delphix'') None (Some ''sa'') None) \<noteq> Raise ase_required
   \<and> (\<exists>p. issued (snd (create_linux_env world0 session0 ''test1'' ''delphix'' ''182.1.1.1''
                         (Some ''/var/opt/delphix'') None (Some ''sa'') None))
              = [environment_create p]
           \<and> Option.bind (host_environment p) he_ase_host_environment_parameters
               = Some \<lparr>db_user = Some ''sa'',
                       credentials = Some [(''type'', Some ''PasswordCredential''),
                                           (''password'', None)]\<rparr>)"
proof -
  have k: "dlpx_engines_keys_0 session0 = Return ''engine1''"
    by (simp add: session0_def)
  have t: "truthy (Some ''sa'')"
    by (simp add: truthy_def)
  have i: "issued session0 = []"
    by (simp add: session0_def)
  show ?thesis
    using k t ase_handler_unreachable [of "''test1''" "''delphix''" "''182.1.1.1''"
            "Some ''/var/opt/delphix''" None "Some ''sa''" None session0 "''engine1''" world0]
    by (simp add: i)
qed

end
